theory Spec2Isabelle
  imports Complex_Main "HOL-Library.AList" "HOL-Library.Product_Lexorder"
begin

section \<open>Python primitives used by main.py\<close>

text \<open>
  Exceptions are values. A handler that raises keeps every mutation and every message it
  made before the raise, so a handler returns the store, the messages sent and the
  exception (if any) that ended it.
\<close>

datatype py_error =
    KeyError | IndexError | TypeError | ValueError | ZeroDivisionError | AttributeError
  | IllTyped

text \<open>
  \<open>IllTyped\<close> is not a Python exception: it marks the places where Python would put
  \<open>None\<close> into a field that the dataclasses declare \<open>str\<close> or \<open>QuestionType\<close>, which the
  typed records below cannot hold. The model stops there and leaves the store as it is.
\<close>

text \<open>\<open>xs[i]\<close>: a negative index counts from the end, anything out of range raises.\<close>

definition py_index :: "'a list \<Rightarrow> int \<Rightarrow> py_error + 'a" where
  "py_index xs i =
     (if 0 \<le> i \<and> i < int (length xs) then Inr (xs ! nat i)
      else if i < 0 \<and> - int (length xs) \<le> i then Inr (xs ! nat (int (length xs) + i))
      else Inl IndexError)"

text \<open>
  Strings are byte lists here; the whitespace and the letters of \<open>str.strip\<close>,
  \<open>str.split\<close> and \<open>str.lower\<close> are the ASCII ones.
\<close>

definition is_space :: "char \<Rightarrow> bool" where
  "is_space c = (c \<in> set [CHR '' '', CHR 0x09, CHR 0x0A, CHR 0x0B, CHR 0x0C, CHR 0x0D,
                           CHR 0x1C, CHR 0x1D, CHR 0x1E, CHR 0x1F])"

definition py_strip :: "string \<Rightarrow> string" where
  "py_strip s = rev (dropWhile is_space (rev (dropWhile is_space s)))"

definition lower_char :: "char \<Rightarrow> char" where
  "lower_char c =
     (let n = (of_char c :: nat) in if 65 \<le> n \<and> n \<le> 90 then char_of (n + 32) else c)"

definition py_lower :: "string \<Rightarrow> string" where
  "py_lower s = map lower_char s"

text \<open>\<open>s.split()\<close>: the maximal runs of non-whitespace characters.\<close>

fun split_ws :: "string \<Rightarrow> string \<Rightarrow> string list" where
  "split_ws cur [] = (if cur = [] then [] else [rev cur])"
| "split_ws cur (c # cs) =
     (if is_space c then (if cur = [] then split_ws [] cs else rev cur # split_ws [] cs)
      else split_ws (c # cur) cs)"

definition py_split :: "string \<Rightarrow> string list" where
  "py_split s = split_ws [] s"

text \<open>\<open>s.split(sep)\<close> for a one-character separator: empty pieces are kept.\<close>

fun split_sep :: "char \<Rightarrow> string \<Rightarrow> string \<Rightarrow> string list" where
  "split_sep sep cur [] = [rev cur]"
| "split_sep sep cur (c # cs) =
     (if c = sep then rev cur # split_sep sep [] cs else split_sep sep (c # cur) cs)"

definition py_split_on :: "char \<Rightarrow> string \<Rightarrow> string list" where
  "py_split_on sep s = split_sep sep [] s"

definition startswith :: "string \<Rightarrow> string \<Rightarrow> bool" where
  "startswith s p = (take (length p) s = p)"

text \<open>\<open>str(n)\<close> and \<open>int(s)\<close> on decimal ASCII digits.\<close>

definition digit_char :: "nat \<Rightarrow> char" where
  "digit_char d = char_of (48 + d)"

definition is_digit :: "char \<Rightarrow> bool" where
  "is_digit c = (48 \<le> (of_char c :: nat) \<and> (of_char c :: nat) \<le> 57)"

definition digit_val :: "char \<Rightarrow> nat" where
  "digit_val c = of_char c - 48"

fun nat_digits :: "nat \<Rightarrow> string" where
  "nat_digits n = (if n < 10 then [digit_char n] else nat_digits (n div 10) @ [digit_char (n mod 10)])"

definition py_str :: "int \<Rightarrow> string" where
  "py_str i = (if i < 0 then CHR ''-'' # nat_digits (nat (- i)) else nat_digits (nat i))"

definition digits_val :: "string \<Rightarrow> nat" where
  "digits_val s = foldl (\<lambda>acc c. 10 * acc + digit_val c) 0 s"

text \<open>
  \<open>int(s)\<close>: surrounding whitespace, an optional sign, and decimal digits that single
  underscores may separate.
\<close>

fun grouped_digits :: "string \<Rightarrow> bool" where
  "grouped_digits [] = False"
| "grouped_digits [c] = is_digit c"
| "grouped_digits (c # d # r) =
     (is_digit c \<and> (if d = CHR ''_'' then grouped_digits r else grouped_digits (d # r)))"

definition py_int :: "string \<Rightarrow> py_error + int" where
  "py_int s =
     (let t = py_strip s;
          neg = (t \<noteq> [] \<and> hd t = CHR ''-'');
          ds = (if t \<noteq> [] \<and> (hd t = CHR ''-'' \<or> hd t = CHR ''+'') then tl t else t);
          v = int (digits_val (filter (\<lambda>c. c \<noteq> CHR ''_'') ds))
      in if grouped_digits ds then Inr (if neg then - v else v) else Inl ValueError)"

section \<open>Data model\<close>

datatype UserRole = TEACHER | STUDENT

datatype QuestionType = MULTIPLE_CHOICE | TEXT_INPUT

text \<open>
  A naive \<open>datetime\<close>: year, month, day, hour, minute, second, microsecond. Python
  compares two of them field by field in this order, which is the lexicographic order of
  the tuple.
\<close>

type_synonym datetime = "nat \<times> nat \<times> nat \<times> nat \<times> nat \<times> nat \<times> nat"

record Question =
  q_id :: string
  q_text :: string
  question_type :: QuestionType
  options :: "string list option"
  correct_answer :: string
  photo_file_id :: "string option"

record Test =
  t_id :: string
  teacher_id :: int
  teacher_username :: string
  questions :: "Question list"
  created_at :: datetime
  t_name :: string
  active :: bool

record StudentAnswer =
  question_id :: string
  answer :: string
  is_correct :: bool
  skipped :: bool

record TestResult =
  test_id :: string
  student_id :: int
  student_username :: string
  answers :: "StudentAnswer list"
  score :: nat
  total_questions :: nat
  percentage :: rat
  completed_at :: datetime
  skipped_count :: nat

text \<open>
  The session dictionary that \<open>start_test\<close> builds and the SQLite table
  \<open>user_test_sessions\<close> keeps (as JSON text) per user.
\<close>

record Session =
  s_test_id :: string
  s_current_question :: nat
  s_answers :: "StudentAnswer list"
  s_start_time :: string
  s_student_username :: string
  s_student_id :: int

text \<open>
  The states of the two aiogram state groups (\<open>TeacherStates\<close>, \<open>StudentStates\<close>); a
  user's FSM context holds at most one of them.
\<close>

datatype FSMState =
    waiting_question_count | creating_question | waiting_question_type
  | waiting_question_text | waiting_question_text_after_photo | waiting_photo
  | waiting_options | waiting_correct_answer
  | taking_test | answering_question

text \<open>
  A key of the FSM data dictionary is absent, holds \<open>None\<close>, or holds a value:
  \<open>data['k']\<close> raises on an absent key only, \<open>data.get('k')\<close> never raises.
\<close>

datatype 'a slot = Absent | PyNone | Val 'a

record Draft =
  d_total_questions :: "int slot"
  d_test :: "Test slot"
  d_current_question :: "int slot"
  d_question_type :: "QuestionType slot"
  d_question_text :: "string slot"
  d_options :: "string list slot"
  d_correct_answer :: "string slot"
  d_photo_file_id :: "string slot"

definition empty_draft :: Draft where
  "empty_draft = \<lparr>d_total_questions = Absent, d_test = Absent, d_current_question = Absent,
     d_question_type = Absent, d_question_text = Absent, d_options = Absent,
     d_correct_answer = Absent, d_photo_file_id = Absent\<rparr>"

text \<open>
  \<open>DataStorage\<close> (the dictionaries are insertion-ordered, hence association lists), the two
  SQLite tables, and the FSM contexts of the dispatcher's \<open>MemoryStorage\<close>.
\<close>

record world =
  users :: "(int \<times> UserRole) list"
  tests :: "(string \<times> Test) list"
  test_results :: "TestResult list"
  user_test_sessions :: "int \<rightharpoonup> Session"
  active_user_tests :: "int \<rightharpoonup> string"
  fsm_state :: "int \<rightharpoonup> FSMState"
  fsm_data :: "int \<Rightarrow> Draft"


section \<open>Outbound messages and handler results\<close>

text \<open>
  What a handler asks the Telegram gateway to show, by content (the literal wording is
  left out). \<open>CallbackAnswer\<close> is \<open>callback.answer(...)\<close>, the transient notification of a
  button press; the others are messages sent or edited in the chat.
\<close>

datatype notice =
    TestNotFound | NoDeleteRights | NoViewRights | TestDeleted | SessionNotFound
  | UnknownCommand

datatype banner = Excellent | Good | Satisfactory | NeedsReview

datatype out =
    CallbackAnswer notice
  | MsgTestNotFound
  | MsgChooseRole
  | MsgHelpHint
  | MsgTeacherMenu
  | MsgStudentWelcome
  | MsgNoTests
  | MsgMyTests "Test list"
  | MsgNoResults
  | MsgAllResults "(Test \<times> nat \<times> rat \<times> TestResult list) list"
  | MsgNoTestResults Test
  | MsgTestResults Test nat rat "TestResult list"
  | MsgTestReady nat string
  | MsgQuestion nat nat Question
  | MsgSessionMissing
  | MsgChoiceFeedback nat nat Question string bool
  | MsgTextFeedback string bool string
  | MsgSkipped
  | MsgFinished nat nat rat nat "nat list" banner
  | NotifyTeacher int string Test nat nat rat nat datetime
  | MsgRoleChosen UserRole
  | MsgHelp "UserRole option"
  | MsgUseStart
  | MsgAskCount
  | MsgBadCount
  | MsgAskTestName int
  | MsgAskQuestionType string int int
  | MsgAskQuestionText QuestionType
  | MsgAskPhoto QuestionType
  | MsgBadPhoto
  | MsgPhotoSaved
  | MsgAskCorrectAnswer
  | MsgAskOptions
  | MsgTooFewOptions
  | MsgChooseCorrect "string list"
  | MsgQuestionSaved int int
  | MsgTestCreated int Test string
  | MsgWhatNext

type_synonym res = "world \<times> out list \<times> py_error option"

definition done_with :: "world \<Rightarrow> out list \<Rightarrow> res" where
  "done_with w os = (w, os, None)"

definition raised :: "world \<Rightarrow> out list \<Rightarrow> py_error \<Rightarrow> res" where
  "raised w os e = (w, os, Some e)"

text \<open>Sequencing: what follows a call runs only when the call did not raise.\<close>

definition and_then :: "res \<Rightarrow> (world \<Rightarrow> res) \<Rightarrow> res" where
  "and_then r f =
     (case r of
        (w, os, Some e) \<Rightarrow> (w, os, Some e)
      | (w, os, None) \<Rightarrow> (case f w of (w', os', e) \<Rightarrow> (w', os @ os', e)))"

section \<open>The teacher's views and test deletion\<close>

definition show_my_tests :: "world \<Rightarrow> int \<Rightarrow> res" where
  "show_my_tests w user_id =
     (let user_tests = filter (\<lambda>t. teacher_id t = user_id) (map snd (tests w))
      in if user_tests = [] then done_with w [MsgNoTests]
         else done_with w [MsgMyTests user_tests])"

definition delete_test :: "world \<Rightarrow> int \<Rightarrow> string \<Rightarrow> res" where
  "delete_test w user_id data =
     (let tid = drop (length ''delete_test_'') data
      in case map_of (tests w) tid of
           None \<Rightarrow> done_with w [CallbackAnswer TestNotFound]
         | Some t \<Rightarrow>
             if teacher_id t \<noteq> user_id then done_with w [CallbackAnswer NoDeleteRights]
             else
               (let w' = w\<lparr>tests := AList.delete tid (tests w),
                           test_results := filter (\<lambda>r. test_id r \<noteq> tid) (test_results w)\<rparr>
                in and_then (done_with w' [CallbackAnswer TestDeleted])
                     (\<lambda>w''. show_my_tests w'' user_id)))"

text \<open>
  \<open>results_by_test\<close> of \<open>show_test_results\<close>: a dictionary from test id to the results of
  that test, each list in the order of \<open>storage.test_results\<close>.
\<close>

definition group_step ::
  "(string \<times> TestResult list) list \<Rightarrow> TestResult \<Rightarrow> (string \<times> TestResult list) list" where
  "group_step d r =
     (case map_of d (test_id r) of
        None \<Rightarrow> d @ [(test_id r, [r])]
      | Some g \<Rightarrow> AList.update (test_id r) (g @ [r]) d)"

definition group_results :: "TestResult list \<Rightarrow> (string \<times> TestResult list) list" where
  "group_results rs = foldl group_step [] rs"

definition average :: "TestResult list \<Rightarrow> py_error + rat" where
  "average rs =
     (if rs = [] then Inl ZeroDivisionError
      else Inr (sum_list (map percentage rs) / of_nat (length rs)))"

text \<open>\<open>results[-5:]\<close>: the last five of the list, in the list's order.\<close>

definition last_five :: "'a list \<Rightarrow> 'a list" where
  "last_five xs = drop (length xs - 5) xs"

fun render_groups ::
  "(string \<times> Test) list \<Rightarrow> (string \<times> TestResult list) list
     \<Rightarrow> py_error + (Test \<times> nat \<times> rat \<times> TestResult list) list" where
  "render_groups ts [] = Inr []"
| "render_groups ts ((tid, rs) # gs) =
     (case map_of ts tid of
        None \<Rightarrow> Inl KeyError
      | Some t \<Rightarrow>
          (case average rs of
             Inl e \<Rightarrow> Inl e
           | Inr avg \<Rightarrow>
               (case render_groups ts gs of
                  Inl e \<Rightarrow> Inl e
                | Inr vs \<Rightarrow> Inr ((t, length rs, avg, last_five rs) # vs))))"

definition show_test_results :: "world \<Rightarrow> int \<Rightarrow> res" where
  "show_test_results w user_id =
     (let user_tests = map t_id (filter (\<lambda>t. teacher_id t = user_id) (map snd (tests w)));
          user_results = filter (\<lambda>r. test_id r \<in> set user_tests) (test_results w)
      in if user_results = [] then done_with w [MsgNoResults]
         else (case render_groups (tests w) (group_results user_results) of
                 Inl e \<Rightarrow> raised w [] e
               | Inr vs \<Rightarrow> done_with w [MsgAllResults vs]))"

text \<open>
  \<open>list.sort(key=..., reverse=True)\<close>: descending by key, and stable (elements with equal
  keys keep their original order).
\<close>

definition sort_reverse :: "('a \<Rightarrow> 'k::linorder) \<Rightarrow> 'a list \<Rightarrow> 'a list" where
  "sort_reverse key xs = rev (sort_key key (rev xs))"

definition view_test_results :: "world \<Rightarrow> int \<Rightarrow> string \<Rightarrow> res" where
  "view_test_results w user_id data =
     (let tid = drop (length ''view_test_'') data
      in case map_of (tests w) tid of
           None \<Rightarrow> done_with w [CallbackAnswer TestNotFound]
         | Some t \<Rightarrow>
             if teacher_id t \<noteq> user_id then done_with w [CallbackAnswer NoViewRights]
             else
               (let rs = filter (\<lambda>r. test_id r = tid) (test_results w)
                in if rs = [] then done_with w [MsgNoTestResults t]
                   else
                     (let sorted_rs = sort_reverse completed_at rs
                      in case average sorted_rs of
                           Inl e \<Rightarrow> raised w [] e
                         | Inr avg \<Rightarrow>
                             done_with w [MsgTestResults t (length sorted_rs) avg
                                            (take 10 sorted_rs)])))"

text \<open>Most recent first: the completion timestamps never increase along the list.\<close>

definition most_recent_first :: "TestResult list \<Rightarrow> bool" where
  "most_recent_first rs = sorted_wrt (\<lambda>a b. completed_at b \<le> completed_at a) rs"


section \<open>Timestamps as text\<close>

text \<open>Zero-padded decimal of a fixed width, as \<open>isoformat\<close> prints each field.\<close>

fun pad :: "nat \<Rightarrow> nat \<Rightarrow> string" where
  "pad 0 n = []"
| "pad (Suc k) n = pad k (n div 10) @ [digit_char (n mod 10)]"

definition isoformat :: "datetime \<Rightarrow> string" where
  "isoformat dt =
     (case dt of (y, mo, d, h, mi, sec, us) \<Rightarrow>
        pad 4 y @ ''-'' @ pad 2 mo @ ''-'' @ pad 2 d @ ''T'' @
        pad 2 h @ '':'' @ pad 2 mi @ '':'' @ pad 2 sec @
        (if us = 0 then [] else ''.'' @ pad 6 us))"

definition leap_year :: "nat \<Rightarrow> bool" where
  "leap_year y = (y mod 4 = 0 \<and> (y mod 100 \<noteq> 0 \<or> y mod 400 = 0))"

definition days_in_month :: "nat \<Rightarrow> nat \<Rightarrow> nat" where
  "days_in_month y m =
     (if m = 2 then (if leap_year y then 29 else 28)
      else if m \<in> set [4, 6, 9, 11] then 30 else 31)"

definition valid_datetime :: "datetime \<Rightarrow> bool" where
  "valid_datetime dt =
     (case dt of (y, mo, d, h, mi, sec, us) \<Rightarrow>
        1 \<le> y \<and> y \<le> 9999 \<and> 1 \<le> mo \<and> mo \<le> 12 \<and> 1 \<le> d \<and> d \<le> days_in_month y mo \<and>
        h < 24 \<and> mi < 60 \<and> sec < 60 \<and> us < 1000000)"

definition all_digits :: "string \<Rightarrow> bool" where
  "all_digits f = (f \<noteq> [] \<and> list_all is_digit f)"

text \<open>
  \<open>datetime.fromisoformat\<close> on the two shapes \<open>isoformat\<close> writes
  (\<open>YYYY-MM-DDTHH:MM:SS\<close> and the same with \<open>.ffffff\<close>); any other text is a
  \<open>ValueError\<close> here.
\<close>

definition fromisoformat :: "string \<Rightarrow> py_error + datetime" where
  "fromisoformat s =
     (let frac = (length s = 26);
          shape = ((length s = 19 \<or> (frac \<and> s ! 19 = CHR ''.'')) \<and>
                   s ! 4 = CHR ''-'' \<and> s ! 7 = CHR ''-'' \<and> s ! 10 = CHR ''T'' \<and>
                   s ! 13 = CHR '':'' \<and> s ! 16 = CHR '':'');
          fy = take 4 s; fmo = take 2 (drop 5 s); fd = take 2 (drop 8 s);
          fh = take 2 (drop 11 s); fmi = take 2 (drop 14 s); fs = take 2 (drop 17 s);
          fus = drop 20 s
      in if shape \<and> list_all all_digits [fy, fmo, fd, fh, fmi, fs] \<and> (frac \<longrightarrow> all_digits fus)
         then
           (let dt = (digits_val fy, digits_val fmo, digits_val fd, digits_val fh,
                      digits_val fmi, digits_val fs, if frac then digits_val fus else 0)
            in if valid_datetime dt then Inr dt else Inl ValueError)
         else Inl ValueError)"

section \<open>The taking machine\<close>

text \<open>The sender of an update: \<open>from_user.id\<close> and the optional \<open>from_user.username\<close>.\<close>

record tg_user =
  u_id :: int
  u_username :: "string option"

text \<open>\<open>from_user.username or str(user_id)\<close>: \<open>None\<close> and the empty string are both falsy.\<close>

definition display_name :: "tg_user \<Rightarrow> string" where
  "display_name u =
     (case u_username u of
        None \<Rightarrow> py_str (u_id u)
      | Some n \<Rightarrow> if n = [] then py_str (u_id u) else n)"

text \<open>\<open>state.clear()\<close>: no state and an empty data dictionary.\<close>

definition state_clear :: "world \<Rightarrow> int \<Rightarrow> world" where
  "state_clear w user_id =
     w\<lparr>fsm_state := (fsm_state w)(user_id := None),
       fsm_data := (fsm_data w)(user_id := empty_draft)\<rparr>"

definition set_state :: "world \<Rightarrow> int \<Rightarrow> FSMState \<Rightarrow> world" where
  "set_state w user_id st = w\<lparr>fsm_state := (fsm_state w)(user_id \<mapsto> st)\<rparr>"

definition save_user_test_session :: "world \<Rightarrow> int \<Rightarrow> Session \<Rightarrow> world" where
  "save_user_test_session w user_id session =
     w\<lparr>user_test_sessions := (user_test_sessions w)(user_id \<mapsto> session)\<rparr>"

definition set_active_user_test :: "world \<Rightarrow> int \<Rightarrow> string \<Rightarrow> world" where
  "set_active_user_test w user_id tid =
     w\<lparr>active_user_tests := (active_user_tests w)(user_id \<mapsto> tid)\<rparr>"

text \<open>\<open>delete_user_test_session\<close> deletes the user's row of both tables.\<close>

definition delete_user_test_session :: "world \<Rightarrow> int \<Rightarrow> world" where
  "delete_user_test_session w user_id =
     w\<lparr>user_test_sessions := (user_test_sessions w)(user_id := None),
       active_user_tests := (active_user_tests w)(user_id := None)\<rparr>"

definition clear_active_user_test :: "world \<Rightarrow> int \<Rightarrow> world" where
  "clear_active_user_test w user_id =
     w\<lparr>active_user_tests := (active_user_tests w)(user_id := None)\<rparr>"

definition banner_of :: "rat \<Rightarrow> banner" where
  "banner_of p =
     (if p \<ge> 90 then Excellent else if p \<ge> 75 then Good
      else if p \<ge> 60 then Satisfactory else NeedsReview)"

text \<open>The numbers (from 1) of the skipped questions, listed when any was skipped.\<close>

definition skipped_numbers :: "StudentAnswer list \<Rightarrow> nat list" where
  "skipped_numbers ans = map Suc (filter (\<lambda>i. skipped (ans ! i)) [0..<length ans])"

text \<open>
  \<open>percentage = (correct_count / total_questions) * 100\<close>: true division, which raises on
  a zero divisor. The quotient is taken in the rationals (Python rounds it to a float).
\<close>

definition compute_percentage :: "nat \<Rightarrow> nat \<Rightarrow> py_error + rat" where
  "compute_percentage correct_count total_q =
     (if total_q = 0 then Inl ZeroDivisionError
      else Inr ((of_nat correct_count / of_nat total_q) * 100))"

definition finish_test :: "world \<Rightarrow> int \<Rightarrow> datetime \<Rightarrow> res" where
  "finish_test w user_id now =
     (case user_test_sessions w user_id of
        None \<Rightarrow> done_with w [MsgSessionMissing]
      | Some session \<Rightarrow>
          (case map_of (tests w) (s_test_id session) of
             None \<Rightarrow> raised w [] KeyError
           | Some t \<Rightarrow>
               (let ans = s_answers session;
                    correct_count = length (filter is_correct ans);
                    total_q = length (questions t);
                    skipped_cnt = length (filter skipped ans)
                in case compute_percentage correct_count total_q of
                     Inl e \<Rightarrow> raised w [] e
                   | Inr pct \<Rightarrow>
                       (let result = \<lparr>test_id = t_id t, student_id = user_id,
                              student_username = s_student_username session, answers = ans,
                              score = correct_count, total_questions = total_q,
                              percentage = pct, completed_at = now,
                              skipped_count = skipped_cnt\<rparr>;
                            w1 = w\<lparr>test_results := test_results w @ [result]\<rparr>;
                            w2 = clear_active_user_test (delete_user_test_session w1 user_id) user_id
                        in done_with (state_clear w2 user_id)
                             [MsgFinished correct_count total_q pct skipped_cnt
                                (if skipped_cnt > 0 then skipped_numbers ans else [])
                                (banner_of pct),
                              NotifyTeacher (teacher_id t) (s_student_username session) t
                                correct_count total_q pct skipped_cnt now]))))"

definition show_current_question :: "world \<Rightarrow> int \<Rightarrow> datetime \<Rightarrow> res" where
  "show_current_question w user_id now =
     (case user_test_sessions w user_id of
        None \<Rightarrow> done_with w [MsgSessionMissing]
      | Some session \<Rightarrow>
          (case map_of (tests w) (s_test_id session) of
             None \<Rightarrow> raised w [] KeyError
           | Some t \<Rightarrow>
               (let i = s_current_question session
                in if i \<ge> length (questions t) then finish_test w user_id now
                   else
                     (let question = questions t ! i;
                          msg = MsgQuestion (i + 1) (length (questions t)) question
                      in if question_type question = MULTIPLE_CHOICE then done_with w [msg]
                         else done_with (set_state w user_id answering_question) [msg]))))"

definition start_test :: "world \<Rightarrow> tg_user \<Rightarrow> string \<Rightarrow> datetime \<Rightarrow> res" where
  "start_test w u tid now =
     (case map_of (tests w) tid of
        None \<Rightarrow> done_with w [MsgTestNotFound]
      | Some t \<Rightarrow>
          if \<not> active t then done_with w [MsgTestNotFound]
          else
            (let user_id = u_id u;
                 session = \<lparr>s_test_id = tid, s_current_question = 0, s_answers = [],
                            s_start_time = isoformat now,
                            s_student_username = display_name u, s_student_id = user_id\<rparr>;
                 w1 = set_active_user_test (save_user_test_session w user_id session) user_id tid
             in and_then
                  (done_with w1 [MsgTestReady (length (questions t)) (teacher_username t)])
                  (\<lambda>w2. show_current_question w2 user_id now)))"

text \<open>
  What the three answer handlers do to the session before saving it: one record appended,
  the index advanced by one.
\<close>

definition record_answer :: "Session \<Rightarrow> StudentAnswer \<Rightarrow> Session" where
  "record_answer session a =
     session\<lparr>s_answers := s_answers session @ [a],
             s_current_question := s_current_question session + 1\<rparr>"

text \<open>\<open>int(callback.data.split('_')[1])\<close>\<close>

definition callback_index :: "string \<Rightarrow> py_error + int" where
  "callback_index data =
     (case py_index (py_split_on CHR ''_'' data) 1 of
        Inl e \<Rightarrow> Inl e
      | Inr piece \<Rightarrow> py_int piece)"

definition process_multiple_choice_answer :: "world \<Rightarrow> int \<Rightarrow> string \<Rightarrow> datetime \<Rightarrow> res" where
  "process_multiple_choice_answer w user_id data now =
     (case user_test_sessions w user_id of
        None \<Rightarrow> done_with w [CallbackAnswer SessionNotFound]
      | Some session \<Rightarrow>
          (case map_of (tests w) (s_test_id session) of
             None \<Rightarrow> raised w [] KeyError
           | Some t \<Rightarrow>
               (case py_index (questions t) (int (s_current_question session)) of
                  Inl e \<Rightarrow> raised w [] e
                | Inr question \<Rightarrow>
                    (case callback_index data of
                       Inl e \<Rightarrow> raised w [] e
                     | Inr answer_index \<Rightarrow>
                         (case options question of
                            None \<Rightarrow> raised w [] TypeError
                          | Some opts \<Rightarrow>
                              (case py_index opts answer_index of
                                 Inl e \<Rightarrow> raised w [] e
                               | Inr selected_answer \<Rightarrow>
                                   (let correct = (selected_answer = correct_answer question);
                                        a = \<lparr>question_id = q_id question,
                                             answer = selected_answer,
                                             is_correct = correct, skipped = False\<rparr>;
                                        session' = record_answer session a;
                                        w1 = save_user_test_session w user_id session'
                                    in and_then
                                         (done_with w1
                                            [MsgChoiceFeedback (s_current_question session')
                                               (length (questions t)) question
                                               selected_answer correct])
                                         (\<lambda>w2. show_current_question w2 user_id now))))))))"

definition process_text_answer_from_student :: "world \<Rightarrow> int \<Rightarrow> string \<Rightarrow> datetime \<Rightarrow> res" where
  "process_text_answer_from_student w user_id txt now =
     (case user_test_sessions w user_id of
        None \<Rightarrow> done_with w [MsgSessionMissing]
      | Some session \<Rightarrow>
          (case map_of (tests w) (s_test_id session) of
             None \<Rightarrow> raised w [] KeyError
           | Some t \<Rightarrow>
               (case py_index (questions t) (int (s_current_question session)) of
                  Inl e \<Rightarrow> raised w [] e
                | Inr question \<Rightarrow>
                    (let user_answer = py_strip txt;
                         correct = (py_lower user_answer = py_lower (correct_answer question));
                         a = \<lparr>question_id = q_id question, answer = user_answer,
                              is_correct = correct, skipped = False\<rparr>;
                         session' = record_answer session a;
                         w1 = save_user_test_session w user_id session'
                     in and_then
                          (done_with (state_clear w1 user_id)
                             [MsgTextFeedback user_answer correct (correct_answer question)])
                          (\<lambda>w2. show_current_question w2 user_id now)))))"

definition skip_question :: "world \<Rightarrow> int \<Rightarrow> datetime \<Rightarrow> res" where
  "skip_question w user_id now =
     (case user_test_sessions w user_id of
        None \<Rightarrow> done_with w [CallbackAnswer SessionNotFound]
      | Some session \<Rightarrow>
          (case map_of (tests w) (s_test_id session) of
             None \<Rightarrow> raised w [] KeyError
           | Some t \<Rightarrow>
               (case py_index (questions t) (int (s_current_question session)) of
                  Inl e \<Rightarrow> raised w [] e
                | Inr question \<Rightarrow>
                    (let a = \<lparr>question_id = q_id question, answer = [],
                              is_correct = False, skipped = True\<rparr>;
                         session' = record_answer session a;
                         w1 = save_user_test_session w user_id session'
                     in and_then
                          (done_with (state_clear w1 user_id) [MsgSkipped])
                          (\<lambda>w2. if s_current_question session' \<ge> length (questions t)
                                then finish_test w2 user_id now
                                else show_current_question w2 user_id now)))))"

section \<open>The start command\<close>

definition normal_start :: "world \<Rightarrow> int \<Rightarrow> res" where
  "normal_start w user_id =
     (case map_of (users w) user_id of
        None \<Rightarrow> done_with w [MsgChooseRole, MsgHelpHint]
      | Some role \<Rightarrow>
          if role = TEACHER then done_with w [MsgTeacherMenu]
          else done_with w [MsgStudentWelcome])"

definition start_handler :: "world \<Rightarrow> tg_user \<Rightarrow> string \<Rightarrow> datetime \<Rightarrow> res" where
  "start_handler w u txt now =
     (let user_id = u_id u; parts = py_split txt
      in if length parts > 1 then
           (let param = parts ! 1
            in if startswith param ''test_'' then
                 (let tid = drop 5 param
                  in if map_of (tests w) tid \<noteq> None then
                       start_test (w\<lparr>users := AList.update user_id STUDENT (users w)\<rparr>) u tid now
                     else and_then (done_with w [MsgTestNotFound])
                            (\<lambda>w'. normal_start w' user_id))
               else normal_start w user_id)
         else normal_start w user_id)"


section \<open>A concrete store\<close>

text \<open>
  Two teachers (7 and 8) with one test each. Test \<open>t1\<close> has a choice question and a
  free-text question with a photo and no prompt text; it has two results, stored in the
  order of completion. Test \<open>t3\<close> was stored with no question at all.
\<close>

definition q_choice :: Question where
  "q_choice = \<lparr>q_id = ''q1'', q_text = ''Capital of France?'',
     question_type = MULTIPLE_CHOICE, options = Some [''Paris'', ''Rome''],
     correct_answer = ''Paris'', photo_file_id = None\<rparr>"

definition q_free :: Question where
  "q_free = \<lparr>q_id = ''q2'', q_text = [], question_type = TEXT_INPUT, options = None,
     correct_answer = ''paris'', photo_file_id = Some ''AgAC''\<rparr>"

definition test1 :: Test where
  "test1 = \<lparr>t_id = ''t1'', teacher_id = 7, teacher_username = ''anna'',
     questions = [q_choice, q_free], created_at = (2024, 5, 17, 9, 30, 0, 0),
     t_name = ''Geo'', active = True\<rparr>"

definition test2 :: Test where
  "test2 = \<lparr>t_id = ''t2'', teacher_id = 8, teacher_username = ''boris'',
     questions = [q_free], created_at = (2024, 5, 17, 11, 0, 0, 250000),
     t_name = [], active = True\<rparr>"

definition test3 :: Test where
  "test3 = \<lparr>t_id = ''t3'', teacher_id = 8, teacher_username = ''boris'',
     questions = [], created_at = (2024, 5, 18, 8, 0, 0, 0),
     t_name = ''Empty'', active = True\<rparr>"

definition result1 :: TestResult where
  "result1 = \<lparr>test_id = ''t1'', student_id = 21, student_username = ''carl'',
     answers = [\<lparr>question_id = ''q1'', answer = ''Paris'', is_correct = True, skipped = False\<rparr>,
                \<lparr>question_id = ''q2'', answer = [], is_correct = False, skipped = True\<rparr>],
     score = 1, total_questions = 2, percentage = 50,
     completed_at = (2024, 5, 18, 10, 0, 0, 0), skipped_count = 1\<rparr>"

definition result2 :: TestResult where
  "result2 = \<lparr>test_id = ''t1'', student_id = 22, student_username = ''dora'',
     answers = [\<lparr>question_id = ''q1'', answer = ''Paris'', is_correct = True, skipped = False\<rparr>,
                \<lparr>question_id = ''q2'', answer = ''Paris'', is_correct = True, skipped = False\<rparr>],
     score = 2, total_questions = 2, percentage = 100,
     completed_at = (2024, 5, 19, 10, 0, 0, 0), skipped_count = 0\<rparr>"

definition result3 :: TestResult where
  "result3 = \<lparr>test_id = ''t2'', student_id = 21, student_username = ''carl'',
     answers = [\<lparr>question_id = ''q2'', answer = ''rome'', is_correct = False, skipped = False\<rparr>],
     score = 0, total_questions = 1, percentage = 0,
     completed_at = (2024, 5, 19, 12, 0, 0, 0), skipped_count = 0\<rparr>"

definition store0 :: world where
  "store0 = \<lparr>users = [(7, TEACHER), (8, TEACHER)],
     tests = [(''t1'', test1), (''t2'', test2), (''t3'', test3)],
     test_results = [result1, result2, result3],
     user_test_sessions = Map.empty, active_user_tests = Map.empty,
     fsm_state = Map.empty, fsm_data = (\<lambda>_. empty_draft)\<rparr>"

definition carl :: tg_user where
  "carl = \<lparr>u_id = 21, u_username = Some ''carl''\<rparr>"

definition anna :: tg_user where
  "anna = \<lparr>u_id = 7, u_username = Some ''anna''\<rparr>"

definition noon :: datetime where
  "noon = (2024, 5, 20, 12, 0, 0, 0)"

text \<open>A store in which user 21 has answered both questions of \<open>t1\<close>.\<close>

definition session_done :: Session where
  "session_done = \<lparr>s_test_id = ''t1'', s_current_question = 2,
     s_answers = [\<lparr>question_id = ''q1'', answer = ''Paris'', is_correct = True, skipped = False\<rparr>,
                  \<lparr>question_id = ''q2'', answer = [], is_correct = False, skipped = True\<rparr>],
     s_start_time = ''2024-05-20T11:55:00'', s_student_username = ''carl'',
     s_student_id = 21\<rparr>"

definition store_done :: world where
  "store_done = store0\<lparr>user_test_sessions := [21 \<mapsto> session_done]\<rparr>"

text \<open>A store in which user 21 has answered the first question of \<open>t1\<close>.\<close>

definition session_mid :: Session where
  "session_mid = \<lparr>s_test_id = ''t1'', s_current_question = 1,
     s_answers = [\<lparr>question_id = ''q1'', answer = ''Rome'', is_correct = False, skipped = False\<rparr>],
     s_start_time = ''2024-05-20T11:55:00'', s_student_username = ''carl'',
     s_student_id = 21\<rparr>"

definition store_mid :: world where
  "store_mid = store0\<lparr>user_test_sessions := [21 \<mapsto> session_mid]\<rparr>"

section \<open>Roles, help and menus\<close>

definition choose_teacher_role :: "world \<Rightarrow> int \<Rightarrow> res" where
  "choose_teacher_role w user_id =
     done_with (w\<lparr>users := AList.update user_id TEACHER (users w)\<rparr>) [MsgRoleChosen TEACHER]"

definition choose_student_role :: "world \<Rightarrow> int \<Rightarrow> res" where
  "choose_student_role w user_id =
     done_with (w\<lparr>users := AList.update user_id STUDENT (users w)\<rparr>) [MsgRoleChosen STUDENT]"

definition help_handler :: "world \<Rightarrow> int \<Rightarrow> res" where
  "help_handler w user_id =
     (case map_of (users w) user_id of
        None \<Rightarrow> done_with w [MsgUseStart]
      | Some role \<Rightarrow> done_with w [MsgHelp (Some role)])"

definition back_to_main_menu :: "world \<Rightarrow> int \<Rightarrow> res" where
  "back_to_main_menu w user_id =
     (if map_of (users w) user_id = Some TEACHER then done_with w [MsgTeacherMenu]
      else done_with w [MsgStudentWelcome])"

definition unknown_callback :: "world \<Rightarrow> res" where
  "unknown_callback w = done_with w [CallbackAnswer UnknownCommand]"

definition unknown_message :: "world \<Rightarrow> int \<Rightarrow> res" where
  "unknown_message w user_id =
     (if fsm_state w user_id \<noteq> None then done_with w []
      else case map_of (users w) user_id of
             Some TEACHER \<Rightarrow> done_with w [MsgTeacherMenu]
           | Some STUDENT \<Rightarrow> done_with w [MsgStudentWelcome]
           | None \<Rightarrow> done_with w [MsgChooseRole])"

section \<open>The authoring wizard\<close>

text \<open>\<open>state.update_data(...)\<close> on the sender's FSM data.\<close>

definition update_data :: "world \<Rightarrow> int \<Rightarrow> (Draft \<Rightarrow> Draft) \<Rightarrow> world" where
  "update_data w user_id f = w\<lparr>fsm_data := (fsm_data w)(user_id := f (fsm_data w user_id))\<rparr>"

definition generate_test_link :: "string \<Rightarrow> string" where
  "generate_test_link tid = ''https://t.me/SynapSnap_bot?start=test_'' @ tid"

definition choose_text_input :: "world \<Rightarrow> int \<Rightarrow> res" where
  "choose_text_input w user_id =
     done_with
       (set_state (update_data w user_id (\<lambda>d. d\<lparr>d_question_type := Val TEXT_INPUT\<rparr>))
          user_id waiting_question_text)
       [MsgAskQuestionText TEXT_INPUT]"

definition choose_multiple_choice :: "world \<Rightarrow> int \<Rightarrow> res" where
  "choose_multiple_choice w user_id =
     done_with
       (set_state (update_data w user_id (\<lambda>d. d\<lparr>d_question_type := Val MULTIPLE_CHOICE\<rparr>))
          user_id waiting_question_text)
       [MsgAskQuestionText MULTIPLE_CHOICE]"

definition choose_photo_multiple_choice :: "world \<Rightarrow> int \<Rightarrow> res" where
  "choose_photo_multiple_choice w user_id =
     done_with
       (set_state (update_data w user_id (\<lambda>d. d\<lparr>d_question_type := Val MULTIPLE_CHOICE\<rparr>))
          user_id waiting_photo)
       [MsgAskPhoto MULTIPLE_CHOICE]"

definition choose_photo_text_input :: "world \<Rightarrow> int \<Rightarrow> res" where
  "choose_photo_text_input w user_id =
     done_with
       (set_state (update_data w user_id (\<lambda>d. d\<lparr>d_question_type := Val TEXT_INPUT\<rparr>))
          user_id waiting_photo)
       [MsgAskPhoto TEXT_INPUT]"

definition create_test_handler :: "world \<Rightarrow> int \<Rightarrow> res" where
  "create_test_handler w user_id =
     done_with (set_state w user_id waiting_question_count) [MsgAskCount]"

text \<open>A \<open>ValueError\<close> (not a number, or a number not above 0) is caught and re-prompts.\<close>

definition process_question_count :: "world \<Rightarrow> int \<Rightarrow> string \<Rightarrow> res" where
  "process_question_count w user_id txt =
     (case py_int txt of
        Inl e \<Rightarrow> if e = ValueError then done_with w [MsgBadCount] else raised w [] e
      | Inr count \<Rightarrow>
          if count \<le> 0 then done_with w [MsgBadCount]
          else done_with
                 (set_state (update_data w user_id (\<lambda>d. d\<lparr>d_total_questions := Val count\<rparr>))
                    user_id creating_question)
                 [MsgAskTestName count])"

text \<open>
  \<open>process_test_name\<close>: \<open>fresh\<close> is the text of the new \<open>uuid4\<close>, \<open>now\<close> the clock. A
  \<open>total_questions\<close> of \<open>None\<close> would only appear in the message text.
\<close>

definition process_test_name :: "world \<Rightarrow> tg_user \<Rightarrow> string \<Rightarrow> string \<Rightarrow> datetime \<Rightarrow> res" where
  "process_test_name w u txt fresh now =
     (let user_id = u_id u in
      case d_total_questions (fsm_data w user_id) of
        Absent \<Rightarrow> raised w [] KeyError
      | PyNone \<Rightarrow> raised w [] IllTyped
      | Val count \<Rightarrow>
          (let test_name = (if txt \<noteq> ''-'' then txt else []);
               t = \<lparr>t_id = fresh, teacher_id = user_id, teacher_username = display_name u,
                    questions = [], created_at = now, t_name = test_name, active = True\<rparr>
           in done_with
                (set_state
                   (update_data w user_id (\<lambda>d. d\<lparr>d_test := Val t, d_current_question := Val 0\<rparr>))
                   user_id waiting_question_type)
                [MsgAskQuestionType test_name 1 count]))"

text \<open>
  After the prompt text is stored, the question type decides the next state; with no type
  set neither branch runs.
\<close>

definition after_question_text :: "world \<Rightarrow> int \<Rightarrow> res" where
  "after_question_text w user_id =
     (case d_question_type (fsm_data w user_id) of
        Val TEXT_INPUT \<Rightarrow> done_with (set_state w user_id waiting_correct_answer) [MsgAskCorrectAnswer]
      | Val MULTIPLE_CHOICE \<Rightarrow> done_with (set_state w user_id waiting_options) [MsgAskOptions]
      | _ \<Rightarrow> done_with w [])"

definition process_question_text :: "world \<Rightarrow> int \<Rightarrow> string \<Rightarrow> res" where
  "process_question_text w user_id txt =
     after_question_text (update_data w user_id (\<lambda>d. d\<lparr>d_question_text := Val txt\<rparr>)) user_id"

text \<open>\<open>message.photo[-1].file_id\<close>: the file id of the last (largest) size.\<close>

definition process_photo_question :: "world \<Rightarrow> int \<Rightarrow> string list \<Rightarrow> res" where
  "process_photo_question w user_id photo =
     (if photo = [] then done_with w [MsgBadPhoto]
      else done_with
             (set_state (update_data w user_id (\<lambda>d. d\<lparr>d_photo_file_id := Val (last photo)\<rparr>))
                user_id waiting_question_text_after_photo)
             [MsgPhotoSaved])"

definition process_question_text_after_photo :: "world \<Rightarrow> int \<Rightarrow> string \<Rightarrow> res" where
  "process_question_text_after_photo w user_id txt =
     after_question_text
       (update_data w user_id
          (\<lambda>d. d\<lparr>d_question_text := Val (if txt \<noteq> ''-'' then txt else [])\<rparr>)) user_id"

text \<open>\<open>[opt.strip() for opt in message.text.split('\n') if opt.strip()]\<close>\<close>

definition parse_options :: "string \<Rightarrow> string list" where
  "parse_options txt =
     map py_strip (filter (\<lambda>opt. py_strip opt \<noteq> []) (py_split_on CHR 0x0A txt))"

definition process_options :: "world \<Rightarrow> int \<Rightarrow> string \<Rightarrow> res" where
  "process_options w user_id txt =
     (let opts = parse_options txt
      in if length opts < 2 then done_with w [MsgTooFewOptions]
         else done_with (update_data w user_id (\<lambda>d. d\<lparr>d_options := Val opts\<rparr>))
                [MsgChooseCorrect opts])"

text \<open>
  \<open>data.get(k)\<close> and \<open>data.get(k, default)\<close>: only an absent key gives the default.
\<close>

definition slot_get :: "'a slot \<Rightarrow> 'a option" where
  "slot_get x = (case x of Val v \<Rightarrow> Some v | _ \<Rightarrow> None)"

text \<open>
  \<open>save_question_and_continue\<close>: \<open>fresh\<close> is the text of the question's new \<open>uuid4\<close>.
  Every \<open>data[k]\<close> on an absent key is a \<open>KeyError\<close> before anything is changed;
  \<open>data.get('question_text', '')\<close> is the empty string on an absent key and \<open>None\<close> on a
  key reset to \<open>None\<close>. \<open>draft_question\<close> is the \<open>Question(...)\<close> built from the data;
  \<open>test.questions.append\<close> changes the test object that the FSM data holds, also when
  the arithmetic that follows raises.
\<close>

definition draft_question :: "Draft \<Rightarrow> string \<Rightarrow> py_error + Question" where
  "draft_question d fresh =
     (if d_question_type d = Absent \<or> d_correct_answer d = Absent then Inl KeyError
      else case (d_question_type d, d_correct_answer d) of
             (Val qtype, Val correct) \<Rightarrow>
               (case d_question_text d of
                  PyNone \<Rightarrow> Inl IllTyped
                | text_slot \<Rightarrow>
                    Inr \<lparr>q_id = fresh,
                         q_text = (case text_slot of Val x \<Rightarrow> x | _ \<Rightarrow> []),
                         question_type = qtype, options = slot_get (d_options d),
                         correct_answer = correct,
                         photo_file_id = slot_get (d_photo_file_id d)\<rparr>)
           | _ \<Rightarrow> Inl IllTyped)"

definition save_question_and_continue :: "world \<Rightarrow> int \<Rightarrow> string \<Rightarrow> res" where
  "save_question_and_continue w user_id fresh =
     (let d = fsm_data w user_id in
      if d_test d = Absent \<or> d_current_question d = Absent \<or> d_total_questions d = Absent
      then raised w [] KeyError
      else
        case draft_question d fresh of
          Inl e \<Rightarrow> raised w [] e
        | Inr question \<Rightarrow>
            (case d_test d of
               Val t \<Rightarrow>
                 (let t' = t\<lparr>questions := questions t @ [question]\<rparr>;
                      w1 = update_data w user_id (\<lambda>d. d\<lparr>d_test := Val t'\<rparr>)
                  in case (d_current_question d, d_total_questions d) of
                       (Val cur, Val total_q) \<Rightarrow>
                         if cur + 1 < total_q then
                           done_with
                             (set_state
                                (update_data w1 user_id
                                   (\<lambda>d. d\<lparr>d_test := Val t', d_current_question := Val (cur + 1),
                                         d_question_text := PyNone, d_question_type := PyNone,
                                         d_options := PyNone, d_correct_answer := PyNone,
                                         d_photo_file_id := PyNone\<rparr>))
                                user_id waiting_question_type)
                             [MsgQuestionSaved (cur + 1) total_q]
                         else
                           done_with
                             (state_clear (w1\<lparr>tests := AList.update (t_id t') t' (tests w1)\<rparr>)
                                user_id)
                             [MsgTestCreated total_q t' (generate_test_link (t_id t')),
                              MsgWhatNext]
                     | _ \<Rightarrow> raised w1 [] TypeError)
             | _ \<Rightarrow> raised w [] AttributeError))"

text \<open>
  \<open>process_correct_answer_choice\<close>: handles every callback whose data starts with
  \<open>correct_\<close>, in any state.
\<close>

definition process_correct_answer_choice :: "world \<Rightarrow> int \<Rightarrow> string \<Rightarrow> string \<Rightarrow> res" where
  "process_correct_answer_choice w user_id data fresh =
     (case callback_index data of
        Inl e \<Rightarrow> raised w [] e
      | Inr correct_index \<Rightarrow>
          (case d_options (fsm_data w user_id) of
             Absent \<Rightarrow> raised w [] KeyError
           | PyNone \<Rightarrow> raised w [] TypeError
           | Val opts \<Rightarrow>
               (case py_index opts correct_index of
                  Inl e \<Rightarrow> raised w [] e
                | Inr chosen \<Rightarrow>
                    save_question_and_continue
                      (update_data w user_id (\<lambda>d. d\<lparr>d_correct_answer := Val chosen\<rparr>))
                      user_id fresh)))"

definition process_text_answer :: "world \<Rightarrow> int \<Rightarrow> string \<Rightarrow> string \<Rightarrow> res" where
  "process_text_answer w user_id txt fresh =
     save_question_and_continue
       (update_data w user_id (\<lambda>d. d\<lparr>d_correct_answer := Val txt\<rparr>)) user_id fresh"

section \<open>The dispatcher\<close>

text \<open>
  An update is a message (its sender, its text if it has one, the file ids of its photo
  sizes if it is a photo) or a pressed inline button with its callback data.
\<close>

datatype update =
    Message tg_user "string option" "string list"
  | Callback tg_user string

text \<open>
  The filter \<open>Command(name)\<close>: the first word of the text is \<open>/name\<close> (a command written
  with the bot's \<open>@mention\<close> is left out of the model).
\<close>

definition is_command :: "string \<Rightarrow> string \<Rightarrow> bool" where
  "is_command cmd txt = (case py_split txt of [] \<Rightarrow> False | w # _ \<Rightarrow> w = CHR ''/'' # cmd)"

text \<open>
  \<open>process_text_answer_from_student\<close> on a message without text: the lookups come
  first, then \<open>message.text.strip()\<close> fails.
\<close>

definition text_answer_without_text :: "world \<Rightarrow> int \<Rightarrow> res" where
  "text_answer_without_text w user_id =
     (case user_test_sessions w user_id of
        None \<Rightarrow> done_with w [MsgSessionMissing]
      | Some session \<Rightarrow>
          (case map_of (tests w) (s_test_id session) of
             None \<Rightarrow> raised w [] KeyError
           | Some t \<Rightarrow>
               (case py_index (questions t) (int (s_current_question session)) of
                  Inl e \<Rightarrow> raised w [] e
                | Inr question \<Rightarrow> raised w [] AttributeError)))"

text \<open>
  Message handlers in the order of their registration: the two commands, then the handler
  of the sender's FSM state, then \<open>unknown_message\<close>.
\<close>

definition handle_text :: "world \<Rightarrow> tg_user \<Rightarrow> string \<Rightarrow> string list \<Rightarrow> datetime \<Rightarrow> string \<Rightarrow> res" where
  "handle_text w u txt photo now fresh =
     (let user_id = u_id u in
      if is_command ''start'' txt then start_handler w u txt now
      else if is_command ''help'' txt then help_handler w user_id
      else case fsm_state w user_id of
             Some waiting_question_count \<Rightarrow> process_question_count w user_id txt
           | Some creating_question \<Rightarrow> process_test_name w u txt fresh now
           | Some waiting_question_text \<Rightarrow> process_question_text w user_id txt
           | Some waiting_photo \<Rightarrow> process_photo_question w user_id photo
           | Some waiting_question_text_after_photo \<Rightarrow>
               process_question_text_after_photo w user_id txt
           | Some waiting_options \<Rightarrow> process_options w user_id txt
           | Some waiting_correct_answer \<Rightarrow> process_text_answer w user_id txt fresh
           | Some answering_question \<Rightarrow> process_text_answer_from_student w user_id txt now
           | _ \<Rightarrow> unknown_message w user_id)"

text \<open>
  The same handlers on a message without text (a photo, a sticker): \<open>int(None)\<close> and
  \<open>None.split\<close> raise, the handlers that only store the text store \<open>None\<close>.
\<close>

definition handle_no_text :: "world \<Rightarrow> tg_user \<Rightarrow> string list \<Rightarrow> string \<Rightarrow> res" where
  "handle_no_text w u photo fresh =
     (let user_id = u_id u in
      case fsm_state w user_id of
        Some waiting_question_count \<Rightarrow> raised w [] TypeError
      | Some creating_question \<Rightarrow>
          (case d_total_questions (fsm_data w user_id) of
             Absent \<Rightarrow> raised w [] KeyError
           | _ \<Rightarrow> raised w [] IllTyped)
      | Some waiting_question_text \<Rightarrow>
          after_question_text
            (update_data w user_id (\<lambda>d. d\<lparr>d_question_text := PyNone\<rparr>)) user_id
      | Some waiting_photo \<Rightarrow> process_photo_question w user_id photo
      | Some waiting_question_text_after_photo \<Rightarrow>
          after_question_text
            (update_data w user_id (\<lambda>d. d\<lparr>d_question_text := PyNone\<rparr>)) user_id
      | Some waiting_options \<Rightarrow> raised w [] AttributeError
      | Some waiting_correct_answer \<Rightarrow>
          save_question_and_continue
            (update_data w user_id (\<lambda>d. d\<lparr>d_correct_answer := PyNone\<rparr>)) user_id fresh
      | Some answering_question \<Rightarrow> text_answer_without_text w user_id
      | _ \<Rightarrow> unknown_message w user_id)"

text \<open>Callback handlers in the order of their registration.\<close>

definition handle_callback :: "world \<Rightarrow> tg_user \<Rightarrow> string \<Rightarrow> datetime \<Rightarrow> string \<Rightarrow> res" where
  "handle_callback w u data now fresh =
     (let user_id = u_id u in
      if data = ''type_text'' then choose_text_input w user_id
      else if data = ''type_multiple'' then choose_multiple_choice w user_id
      else if data = ''type_photo_multiple'' then choose_photo_multiple_choice w user_id
      else if data = ''type_photo_text'' then choose_photo_text_input w user_id
      else if data = ''role_teacher'' then choose_teacher_role w user_id
      else if data = ''role_student'' then choose_student_role w user_id
      else if data = ''create_test'' then create_test_handler w user_id
      else if startswith data ''correct_'' then process_correct_answer_choice w user_id data fresh
      else if data = ''my_tests'' then show_my_tests w user_id
      else if startswith data ''delete_test_'' then delete_test w user_id data
      else if data = ''test_results'' then show_test_results w user_id
      else if startswith data ''view_test_'' then view_test_results w user_id data
      else if data = ''main_menu'' then back_to_main_menu w user_id
      else if startswith data ''answer_'' then process_multiple_choice_answer w user_id data now
      else if data = ''skip_question'' then skip_question w user_id now
      else unknown_callback w)"

text \<open>
  One processed update; \<open>now\<close> is the clock during it and \<open>fresh\<close> the identifier
  \<open>uuid4\<close> would give.
\<close>

definition handle :: "world \<Rightarrow> update \<Rightarrow> datetime \<Rightarrow> string \<Rightarrow> res" where
  "handle w upd now fresh =
     (case upd of
        Message u (Some txt) photo \<Rightarrow> handle_text w u txt photo now fresh
      | Message u None photo \<Rightarrow> handle_no_text w u photo fresh
      | Callback u data \<Rightarrow> handle_callback w u data now fresh)"

text \<open>The stores the bot can be in after any number of updates, starting from \<open>w0\<close>.\<close>

inductive reachable :: "world \<Rightarrow> world \<Rightarrow> bool" for w0 :: world where
  reach_init: "reachable w0 w0"
| reach_step: "reachable w0 w \<Longrightarrow> reachable w0 (fst (handle w upd now fresh))"

section \<open>Invariants\<close>

text \<open>Every stored session has as many answer records as its question index says.\<close>

definition session_inv :: "world \<Rightarrow> bool" where
  "session_inv w =
     (\<forall>uid s. user_test_sessions w uid = Some s \<longrightarrow> length (s_answers s) = s_current_question s)"

text \<open>
  How one update changes the stored sessions: a session stored afterwards was stored
  before, or is fresh (no answers, index 0), or is the sender's earlier session with
  exactly one answer record appended and the index advanced by one.
\<close>

definition session_step :: "world \<Rightarrow> world \<Rightarrow> bool" where
  "session_step w w' =
     (\<forall>uid s'. user_test_sessions w' uid = Some s' \<longrightarrow>
        user_test_sessions w uid = Some s' \<or>
        (s_answers s' = [] \<and> s_current_question s' = 0) \<or>
        (\<exists>s a. user_test_sessions w uid = Some s \<and> s' = record_answer s a))"

text \<open>A choice question is well formed when its correct answer is one of its options.\<close>

definition choice_ok :: "Question \<Rightarrow> bool" where
  "choice_ok q =
     (question_type q = MULTIPLE_CHOICE \<longrightarrow>
        (\<exists>opts. options q = Some opts \<and> correct_answer q \<in> set opts))"

definition test_ok :: "Test \<Rightarrow> bool" where
  "test_ok t = (\<forall>q \<in> set (questions t). choice_ok q)"

text \<open>
  The wizard's invariant: every stored test and every test under construction has only
  well-formed choice questions, and a user whose state is \<open>waiting_correct_answer\<close> (the
  only state in which a typed text becomes the correct answer) is writing a free-text
  question.
\<close>

definition wizard_inv :: "world \<Rightarrow> bool" where
  "wizard_inv w =
     ((\<forall>kt \<in> set (tests w). test_ok (snd kt)) \<and>
      (\<forall>uid t. d_test (fsm_data w uid) = Val t \<longrightarrow> test_ok t) \<and>
      (\<forall>uid. fsm_state w uid = Some waiting_correct_answer \<longrightarrow>
             d_question_type (fsm_data w uid) = Val TEXT_INPUT))"

text \<open>The bot before its first update: nothing stored, no FSM context.\<close>

definition empty_world :: world where
  "empty_world = \<lparr>users = [], tests = [], test_results = [],
     user_test_sessions = Map.empty, active_user_tests = Map.empty,
     fsm_state = Map.empty, fsm_data = (\<lambda>_. empty_draft)\<rparr>"

section \<open>Observations used in the properties\<close>

text \<open>A handler result whose store has the sessions of the store it started from.\<close>

definition same_sessions :: "world \<Rightarrow> res \<Rightarrow> bool" where
  "same_sessions w r = (user_test_sessions (fst r) = user_test_sessions w)"

text \<open>
  The outcome of an answer or skip on session \<open>s\<close>: the saved session is \<open>s\<close> with the
  record \<open>a\<close> appended and the index advanced, or (after the last question) the session is
  gone and a new result holds the answers of \<open>s\<close> followed by \<open>a\<close>.
\<close>

definition answered :: "world \<Rightarrow> int \<Rightarrow> Session \<Rightarrow> StudentAnswer \<Rightarrow> world \<Rightarrow> bool" where
  "answered w uid s a w' =
     (user_test_sessions w' uid = Some (record_answer s a) \<or>
      (user_test_sessions w' uid = None \<and>
       (\<exists>res. test_results w' = test_results w @ [res] \<and> answers res = s_answers s @ [a])))"

text \<open>The session dictionary \<open>start_test\<close> builds.\<close>

definition fresh_session :: "tg_user \<Rightarrow> string \<Rightarrow> datetime \<Rightarrow> Session" where
  "fresh_session u tid now =
     \<lparr>s_test_id = tid, s_current_question = 0, s_answers = [], s_start_time = isoformat now,
      s_student_username = display_name u, s_student_id = u_id u\<rparr>"

text \<open>The question assembled from the draft is well formed when the draft is.\<close>

definition draft_ready :: "Draft \<Rightarrow> bool" where
  "draft_ready d =
     (d_question_type d = Val MULTIPLE_CHOICE \<longrightarrow>
        (\<forall>c. d_correct_answer d = Val c \<longrightarrow> (\<exists>opts. d_options d = Val opts \<and> c \<in> set opts)))"

text \<open>
  A change of the store that leaves the tests and every draft alone, except that the
  sender's FSM state may become \<open>answering_question\<close> or the sender's context may be
  cleared: all that the taking machine does to the wizard.
\<close>

definition quiet :: "int \<Rightarrow> world \<Rightarrow> world \<Rightarrow> bool" where
  "quiet uid w w' =
     (tests w' = tests w \<and>
      (\<forall>u. u \<noteq> uid \<longrightarrow> fsm_data w' u = fsm_data w u \<and> fsm_state w' u = fsm_state w u) \<and>
      ((fsm_data w' uid = fsm_data w uid \<and>
        (fsm_state w' uid = fsm_state w uid \<or> fsm_state w' uid = Some answering_question)) \<or>
       (fsm_data w' uid = empty_draft \<and>
        (fsm_state w' uid = None \<or> fsm_state w' uid = Some answering_question))))"

text \<open>The store after a list of updates, each with its clock and fresh identifier.\<close>

definition run :: "world \<Rightarrow> (update \<times> datetime \<times> string) list \<Rightarrow> world" where
  "run w evs = foldl (\<lambda>w ev. fst (handle w (fst ev) (fst (snd ev)) (snd (snd ev)))) w evs"

text \<open>
  One author goes through the wizard for a test of one choice question and picks the
  first option as the correct answer.
\<close>

definition wizard_events :: "(update \<times> datetime \<times> string) list" where
  "wizard_events =
     [(Callback anna ''create_test'', noon, ''u0''),
      (Message anna (Some ''1'') [], noon, ''u1''),
      (Message anna (Some ''Geo'') [], noon, ''T''),
      (Callback anna ''type_multiple'', noon, ''u3''),
      (Message anna (Some ''Capital of France?'') [], noon, ''u4''),
      (Message anna (Some (''Paris'' @ [CHR 0x0A] @ ''Rome'')) [], noon, ''u5''),
      (Callback anna ''correct_0'', noon, ''Q'')]"

section \<open>Properties\<close>

lemma and_then_done [simp]:
  "and_then (done_with w os) f = (case f w of (w', os', e) \<Rightarrow> (w', os @ os', e))"
  by (simp add: and_then_def done_with_def)

subsection \<open>Deletion\<close>

text \<open>
  C5. When its owner deletes a test, the test leaves the store together with every result
  whose test identifier is the deleted one; every other test, every result of another
  test (and their order), the roles and the sessions stay as they were.
\<close>

theorem delete_test_cascade:
  assumes "map_of (tests w) tid = Some t" and "teacher_id t = uid"
  shows "let r = delete_test w uid (''delete_test_'' @ tid); w' = fst r in
           snd (snd r) = None \<and>
           map_of (tests w') tid = None \<and>
           (\<forall>k. k \<noteq> tid \<longrightarrow> map_of (tests w') k = map_of (tests w) k) \<and>
           tests w' = AList.delete tid (tests w) \<and>
           test_results w' = filter (\<lambda>r. test_id r \<noteq> tid) (test_results w) \<and>
           (\<forall>r \<in> set (test_results w'). test_id r \<noteq> tid) \<and>
           (\<forall>r \<in> set (test_results w). test_id r \<noteq> tid \<longrightarrow> r \<in> set (test_results w')) \<and>
           users w' = users w \<and> user_test_sessions w' = user_test_sessions w \<and>
           active_user_tests w' = active_user_tests w"
proof -
  have "\<exists>outs. delete_test w uid (''delete_test_'' @ tid) =
          (w\<lparr>tests := AList.delete tid (tests w),
             test_results := filter (\<lambda>r. test_id r \<noteq> tid) (test_results w)\<rparr>, outs, None)"
    using assms
    by (simp add: delete_test_def Let_def show_my_tests_def done_with_def and_then_def)
  then obtain outs where eq: "delete_test w uid (''delete_test_'' @ tid) =
          (w\<lparr>tests := AList.delete tid (tests w),
             test_results := filter (\<lambda>r. test_id r \<noteq> tid) (test_results w)\<rparr>, outs, None)"
    by blast
  show ?thesis
    unfolding Let_def eq by (simp add: delete_conv)
qed

theorem delete_test_cascade_witness:
  "map_of (tests store0) ''t1'' = Some test1 \<and> teacher_id test1 = 7 \<and>
   map_of (tests (fst (delete_test store0 7 ''delete_test_t1''))) ''t1'' = None \<and>
   map_of (tests (fst (delete_test store0 7 ''delete_test_t1''))) ''t2'' = Some test2 \<and>
   test_results (fst (delete_test store0 7 ''delete_test_t1'')) = [result3]"
proof -
  have h1: "map_of (tests store0) ''t1'' = Some test1" by (simp add: store0_def)
  have h2: "teacher_id test1 = 7" by (simp add: test1_def)
  have h3: "filter (\<lambda>r. test_id r \<noteq> ''t1'') (test_results store0) = [result3]"
    by (simp add: store0_def result1_def result2_def result3_def)
  have h4: "map_of (tests store0) ''t2'' = Some test2" by (simp add: store0_def)
  have e: "''delete_test_'' @ ''t1'' = ''delete_test_t1''" by simp
  note th = delete_test_cascade [OF h1 h2, unfolded Let_def e]
  note a = th [THEN conjunct2, THEN conjunct1]
  note b0 = th [THEN conjunct2, THEN conjunct2, THEN conjunct1, rule_format, of "''t2''"]
  note c0 = th [THEN conjunct2, THEN conjunct2, THEN conjunct2, THEN conjunct2, THEN conjunct1]
  have b: "map_of (tests (fst (delete_test store0 7 ''delete_test_t1''))) ''t2'' = Some test2"
    using b0 h4 by simp
  have c: "test_results (fst (delete_test store0 7 ''delete_test_t1'')) = [result3]"
    using c0 h3 by simp
  show ?thesis using h1 h2 a b c by (intro conjI)
qed

subsection \<open>Authorization\<close>

text \<open>
  C6. A user who is not the owner of a stored test and asks to delete it, or to view its
  results, gets the corresponding no-rights notification and nothing else happens: the
  whole store (tests, results, sessions, roles, FSM contexts) is returned unchanged.
\<close>

theorem non_owner_rejected:
  assumes "map_of (tests w) tid = Some t" and "teacher_id t \<noteq> uid"
  shows "delete_test w uid (''delete_test_'' @ tid) = (w, [CallbackAnswer NoDeleteRights], None) \<and>
         view_test_results w uid (''view_test_'' @ tid) = (w, [CallbackAnswer NoViewRights], None)"
  using assms by (simp add: delete_test_def view_test_results_def done_with_def)

theorem non_owner_rejected_witness:
  "map_of (tests store0) ''t1'' = Some test1 \<and> teacher_id test1 \<noteq> 8 \<and>
   delete_test store0 8 ''delete_test_t1'' = (store0, [CallbackAnswer NoDeleteRights], None) \<and>
   view_test_results store0 8 ''view_test_t1'' = (store0, [CallbackAnswer NoViewRights], None)"
proof -
  have h1: "map_of (tests store0) ''t1'' = Some test1" by (simp add: store0_def)
  have h2: "teacher_id test1 \<noteq> 8" by (simp add: test1_def)
  show ?thesis using non_owner_rejected [OF h1 h2] h1 h2 by simp
qed

subsection \<open>Order of displayed results\<close>

lemma sorted_wrt_sort_reverse:
  "sorted_wrt (\<lambda>a b. key b \<le> key a) (sort_reverse key xs)"
proof -
  have "sorted (map key (sort_key key (rev xs)))" by simp
  then have "sorted_wrt (\<lambda>a b. key a \<le> key b) (sort_key key (rev xs))"
    by (simp add: sorted_map)
  then show ?thesis
    by (simp add: sort_reverse_def sorted_wrt_rev)
qed

lemma sorted_wrt_take: "sorted_wrt R xs \<Longrightarrow> sorted_wrt R (take n xs)"
  by (metis append_take_drop_id sorted_wrt_append)

lemma set_sort_reverse: "set (sort_reverse key xs) = set xs"
  by (simp add: sort_reverse_def)


lemma sort_demo: "sort_reverse completed_at [result1, result2] = [result2, result1]"
  by (simp add: sort_reverse_def result1_def result2_def)

lemma avg_demo: "average [result2, result1] = Inr 75"
  by (simp add: average_def result1_def result2_def)

lemma view_demo:
  "view_test_results store0 7 (''view_test_'' @ ''t1'') =
     (store0, [MsgTestResults test1 2 75 [result2, result1]], None)"
proof -
  have h1: "map_of (tests store0) ''t1'' = Some test1" by (simp add: store0_def)
  have h2: "teacher_id test1 = 7" by (simp add: test1_def)
  have h3: "filter (\<lambda>r. test_id r = ''t1'') (test_results store0) = [result1, result2]"
    by (simp add: store0_def result1_def result2_def result3_def)
  show ?thesis
    by (simp add: view_test_results_def h1 h2 h3 sort_demo avg_demo done_with_def)
qed


lemma group_demo: "group_results [result1, result2] = [(''t1'', [result1, result2])]"
  by (simp add: group_results_def group_step_def result1_def result2_def)


subsection \<open>What a handler of the taking machine can do to the store\<close>

lemma finish_test_cases:
  assumes "finish_test w uid now = (w', outs, e)"
  shows "(w' = w \<and> (e \<noteq> None \<or> user_test_sessions w uid = None)) \<or>
         (\<exists>s t r. user_test_sessions w uid = Some s \<and> map_of (tests w) (s_test_id s) = Some t \<and>
            questions t \<noteq> [] \<and> e = None \<and>
            user_test_sessions w' = (user_test_sessions w)(uid := None) \<and>
            test_results w' = test_results w @ [r] \<and> answers r = s_answers s \<and>
            score r = length (filter is_correct (s_answers s)) \<and>
            total_questions r = length (questions t) \<and>
            percentage r = of_nat (score r) / of_nat (total_questions r) * 100 \<and>
            tests w' = tests w \<and> users w' = users w)"
  using assms
  by (auto simp: finish_test_def Let_def done_with_def raised_def compute_percentage_def
        state_clear_def clear_active_user_test_def delete_user_test_session_def
      split: option.splits sum.splits if_splits)

lemma show_current_question_cases:
  assumes "show_current_question w uid now = (w', outs, e)"
  shows "(user_test_sessions w' = user_test_sessions w \<and> test_results w' = test_results w \<and>
          tests w' = tests w \<and> users w' = users w) \<or>
         (\<exists>s t r. user_test_sessions w uid = Some s \<and> map_of (tests w) (s_test_id s) = Some t \<and>
            length (questions t) \<le> s_current_question s \<and> e = None \<and>
            user_test_sessions w' = (user_test_sessions w)(uid := None) \<and>
            test_results w' = test_results w @ [r] \<and> answers r = s_answers s \<and>
            tests w' = tests w \<and> users w' = users w)"
proof (cases "user_test_sessions w uid")
  case None
  with assms show ?thesis by (simp add: show_current_question_def done_with_def)
next
  case (Some s)
  show ?thesis
  proof (cases "map_of (tests w) (s_test_id s)")
    case None
    with Some assms show ?thesis by (simp add: show_current_question_def raised_def)
  next
    case (Some t) note t = this
    show ?thesis
    proof (cases "length (questions t) \<le> s_current_question s")
      case True
      with \<open>user_test_sessions w uid = Some s\<close> t assms
      have f: "finish_test w uid now = (w', outs, e)"
        by (simp add: show_current_question_def Let_def)
      from finish_test_cases [OF f] \<open>user_test_sessions w uid = Some s\<close> t True
      show ?thesis by auto
    next
      case False
      with \<open>user_test_sessions w uid = Some s\<close> t assms show ?thesis
        by (auto simp: show_current_question_def Let_def done_with_def set_state_def
              split: if_splits)
    qed
  qed
qed

lemma start_test_users: "users (fst (start_test w u tid now)) = users w"
proof (cases "start_test w u tid now")
  case (fields w' outs e)
  show ?thesis
  proof (cases "map_of (tests w) tid")
    case None
    then show ?thesis by (simp add: start_test_def done_with_def)
  next
    case (Some t)
    show ?thesis
    proof (cases "active t")
      case False
      with Some show ?thesis by (simp add: start_test_def done_with_def)
    next
      case True
      define w1 where "w1 = set_active_user_test (save_user_test_session w (u_id u)
         \<lparr>s_test_id = tid, s_current_question = 0, s_answers = [],
          s_start_time = isoformat now, s_student_username = display_name u,
          s_student_id = u_id u\<rparr>) (u_id u) tid"
      obtain w2 os2 e2 where sh: "show_current_question w1 (u_id u) now = (w2, os2, e2)"
        by (cases "show_current_question w1 (u_id u) now")
      have "users w2 = users w1" using show_current_question_cases [OF sh] by auto
      moreover have "users w1 = users w"
        by (simp add: w1_def set_active_user_test_def save_user_test_session_def)
      moreover have "fst (start_test w u tid now) = w2"
        using Some True sh by (simp add: start_test_def Let_def w1_def)
      ultimately show ?thesis by simp
    qed
  qed
qed

subsection \<open>The deep link and the stored role\<close>

text \<open>
  C10. A start command whose second word is \<open>test_<id>\<close>, with \<open>id\<close> a key of the test store,
  runs \<open>start_test\<close> on the store in which the sender's role has been set to
  \<open>STUDENT\<close>; whatever role the sender had before (also \<open>TEACHER\<close>) is overwritten, and
  nothing that follows changes it back.
\<close>

theorem deep_link_sets_student_role:
  assumes "1 < length (py_split txt)" and "py_split txt ! 1 = ''test_'' @ tid"
      and "map_of (tests w) tid = Some t"
  shows "start_handler w u txt now =
           start_test (w\<lparr>users := AList.update (u_id u) STUDENT (users w)\<rparr>) u tid now \<and>
         map_of (users (fst (start_handler w u txt now))) (u_id u) = Some STUDENT"
proof -
  have eq: "start_handler w u txt now =
           start_test (w\<lparr>users := AList.update (u_id u) STUDENT (users w)\<rparr>) u tid now"
    using assms by (simp add: start_handler_def Let_def startswith_def)
  show ?thesis
    unfolding eq by (simp add: start_test_users update_conv)
qed

lemma split_demo: "py_split ''/start test_t2'' = [''/start'', ''test_t2'']"
  by (simp add: py_split_def is_space_def)

theorem deep_link_sets_student_role_witness:
  "1 < length (py_split ''/start test_t2'') \<and>
   py_split ''/start test_t2'' ! 1 = ''test_'' @ ''t2'' \<and>
   map_of (tests store0) ''t2'' = Some test2 \<and>
   map_of (users store0) (u_id anna) = Some TEACHER \<and>
   map_of (users (fst (start_handler store0 anna ''/start test_t2'' noon))) (u_id anna) =
     Some STUDENT"
proof -
  have h1: "1 < length (py_split ''/start test_t2'')" by (simp add: split_demo)
  have h2: "py_split ''/start test_t2'' ! 1 = ''test_'' @ ''t2''" by (simp add: split_demo)
  have h3: "map_of (tests store0) ''t2'' = Some test2" by (simp add: store0_def)
  have h4: "map_of (users store0) (u_id anna) = Some TEACHER"
    by (simp add: store0_def anna_def)
  note th = deep_link_sets_student_role [OF h1 h2 h3, of anna noon]
  show ?thesis using h1 h2 h3 h4 th [THEN conjunct2] by (intro conjI)
qed

subsection \<open>The percentage of a finished session\<close>



lemma split_demo3: "py_split ''/start test_t3'' = [''/start'', ''test_t3'']"
  by (simp add: py_split_def is_space_def)


subsection \<open>Scoring a free-text answer\<close>

lemma py_index_nat:
  "py_index xs (int i) = (if i < length xs then Inr (xs ! i) else Inl IndexError)"
  by (simp add: py_index_def)

text \<open>What happens after an answer record has been saved: the next question is shown and
  the session stays, or the test is finished and the session's answers become a result.\<close>

lemma after_record:
  assumes s': "user_test_sessions w1 uid = Some s'"
      and t: "map_of (tests w1) (s_test_id s') = Some t"
      and ne: "questions t \<noteq> []"
      and sh: "show_current_question w1 uid now = (w', outs, e)"
  shows "e = None \<and>
         ((user_test_sessions w' = user_test_sessions w1 \<and> test_results w' = test_results w1) \<or>
          (user_test_sessions w' = (user_test_sessions w1)(uid := None) \<and>
           (\<exists>r. test_results w' = test_results w1 @ [r] \<and> answers r = s_answers s')))"
proof (cases "length (questions t) \<le> s_current_question s'")
  case True
  with s' t sh have f: "finish_test w1 uid now = (w', outs, e)"
    by (simp add: show_current_question_def Let_def)
  from f s' t ne show ?thesis
    by (auto simp: finish_test_def Let_def compute_percentage_def done_with_def
          state_clear_def clear_active_user_test_def delete_user_test_session_def)
next
  case False
  with s' t sh show ?thesis
    by (auto simp: show_current_question_def Let_def done_with_def set_state_def split: if_splits)
qed


lemma record_answer_simps [simp]:
  "s_test_id (record_answer s a) = s_test_id s"
  "s_answers (record_answer s a) = s_answers s @ [a]"
  "s_current_question (record_answer s a) = Suc (s_current_question s)"
  by (simp_all add: record_answer_def)


lemma lower_demo: "py_lower ''Paris'' = ''paris''"
  by code_simp

lemma strip_demo: "py_strip ''  Paris '' = ''Paris''"
  by code_simp


subsection \<open>Sessions under every update\<close>

lemma same_sessions_simple [simp]:
  "same_sessions w (done_with w os)" "same_sessions w (raised w os e)"
  by (simp_all add: same_sessions_def done_with_def raised_def)

lemma sessions_update_data [simp]:
  "user_test_sessions (update_data w uid f) = user_test_sessions w"
  by (simp add: update_data_def)

lemma sessions_set_state [simp]:
  "user_test_sessions (set_state w uid st) = user_test_sessions w"
  by (simp add: set_state_def)

lemma sessions_state_clear [simp]:
  "user_test_sessions (state_clear w uid) = user_test_sessions w"
  by (simp add: state_clear_def)

lemma same_sessions_done [simp]:
  "same_sessions w (done_with w' os) = (user_test_sessions w' = user_test_sessions w)"
  "same_sessions w (raised w' os e) = (user_test_sessions w' = user_test_sessions w)"
  by (simp_all add: same_sessions_def done_with_def raised_def)

lemma same_after_question_text: "same_sessions w (after_question_text w uid)"
  by (simp add: after_question_text_def split: slot.splits QuestionType.splits)

lemma same_after_question_text':
  "user_test_sessions w' = user_test_sessions w \<Longrightarrow> same_sessions w (after_question_text w' uid)"
  using same_after_question_text [of w' uid] by (simp add: same_sessions_def)

lemma same_save_question: "same_sessions w (save_question_and_continue w uid fresh)"
  by (simp add: save_question_and_continue_def Let_def
       split: slot.splits prod.splits sum.splits)

lemma same_save_question':
  "user_test_sessions w' = user_test_sessions w \<Longrightarrow>
   same_sessions w (save_question_and_continue w' uid fresh)"
  using same_save_question [of w' uid fresh] by (simp add: same_sessions_def)

lemma same_wizard_handlers:
  "same_sessions w (choose_text_input w uid)"
  "same_sessions w (choose_multiple_choice w uid)"
  "same_sessions w (choose_photo_multiple_choice w uid)"
  "same_sessions w (choose_photo_text_input w uid)"
  "same_sessions w (create_test_handler w uid)"
  "same_sessions w (process_question_count w uid txt)"
  "same_sessions w (process_test_name w u txt fresh now)"
  "same_sessions w (process_question_text w uid txt)"
  "same_sessions w (process_photo_question w uid photo)"
  "same_sessions w (process_question_text_after_photo w uid txt)"
  "same_sessions w (process_options w uid txt)"
  "same_sessions w (process_correct_answer_choice w uid data fresh)"
  "same_sessions w (process_text_answer w uid txt fresh)"
  by (simp_all add: choose_text_input_def choose_multiple_choice_def
        choose_photo_multiple_choice_def choose_photo_text_input_def create_test_handler_def
        process_question_count_def process_test_name_def process_question_text_def
        process_photo_question_def process_question_text_after_photo_def process_options_def
        process_correct_answer_choice_def process_text_answer_def Let_def
        same_after_question_text' same_save_question'
      split: sum.splits slot.splits)

lemma same_other_handlers:
  "same_sessions w (choose_teacher_role w uid)"
  "same_sessions w (choose_student_role w uid)"
  "same_sessions w (help_handler w uid)"
  "same_sessions w (back_to_main_menu w uid)"
  "same_sessions w (unknown_callback w)"
  "same_sessions w (unknown_message w uid)"
  "same_sessions w (normal_start w uid)"
  "same_sessions w (show_my_tests w uid)"
  "same_sessions w (show_test_results w uid)"
  "same_sessions w (view_test_results w uid data)"
  "same_sessions w (text_answer_without_text w uid)"
  by (simp_all add: choose_teacher_role_def choose_student_role_def help_handler_def
        back_to_main_menu_def unknown_callback_def unknown_message_def normal_start_def
        show_my_tests_def show_test_results_def view_test_results_def
        text_answer_without_text_def Let_def
      split: option.splits sum.splits UserRole.splits)

lemma same_delete_test: "same_sessions w (delete_test w uid data)"
  by (simp add: delete_test_def Let_def same_sessions_def show_my_tests_def done_with_def
        and_then_def split: option.splits)

lemma same_handle_no_text: "same_sessions w (handle_no_text w u photo fresh)"
  by (simp add: handle_no_text_def Let_def same_wizard_handlers same_other_handlers
        same_after_question_text' same_save_question'
      split: option.splits FSMState.splits slot.splits)

lemma session_step_same: "same_sessions w r \<Longrightarrow> session_step w (fst r)"
  by (simp add: same_sessions_def session_step_def)

lemma sessions_after_finish:
  "user_test_sessions (fst (finish_test w uid now)) = user_test_sessions w \<or>
   user_test_sessions (fst (finish_test w uid now)) = (user_test_sessions w)(uid := None)"
proof (cases "finish_test w uid now")
  case (fields w' outs e)
  from finish_test_cases [OF fields] fields show ?thesis by auto
qed

lemma sessions_after_show:
  "user_test_sessions (fst (show_current_question w uid now)) = user_test_sessions w \<or>
   user_test_sessions (fst (show_current_question w uid now)) = (user_test_sessions w)(uid := None)"
proof (cases "show_current_question w uid now")
  case (fields w' outs e)
  from show_current_question_cases [OF fields] fields show ?thesis by auto
qed

lemma fst_and_then_done [simp]: "fst (and_then (done_with w os) f) = fst (f w)"
  by (simp add: split: prod.splits)

lemma step_after_save:
  assumes "user_test_sessions w1 = (user_test_sessions w)(uid \<mapsto> s1)"
      and "(s_answers s1 = [] \<and> s_current_question s1 = 0) \<or>
           (\<exists>s a. user_test_sessions w uid = Some s \<and> s1 = record_answer s a)"
      and "user_test_sessions w' = user_test_sessions w1 \<or>
           user_test_sessions w' = (user_test_sessions w1)(uid := None)"
  shows "session_step w w'"
  using assms by (auto simp: session_step_def split: if_splits)

lemma step_start_test: "session_step w (fst (start_test w u tid now))"
proof (cases "map_of (tests w) tid")
  case None
  then show ?thesis by (simp add: start_test_def session_step_same)
next
  case (Some t)
  show ?thesis
  proof (cases "active t")
    case False
    with Some show ?thesis by (simp add: start_test_def session_step_same)
  next
    case True
    define s1 where "s1 = \<lparr>s_test_id = tid, s_current_question = 0, s_answers = [],
          s_start_time = isoformat now, s_student_username = display_name u,
          s_student_id = u_id u\<rparr>"
    define w1 where "w1 = set_active_user_test (save_user_test_session w (u_id u) s1) (u_id u) tid"
    have eq: "fst (start_test w u tid now) = fst (show_current_question w1 (u_id u) now)"
      using Some True by (simp add: start_test_def Let_def w1_def s1_def split: prod.splits)
    have a: "user_test_sessions w1 = (user_test_sessions w)(u_id u \<mapsto> s1)"
      by (simp add: w1_def set_active_user_test_def save_user_test_session_def)
    have b: "s_answers s1 = [] \<and> s_current_question s1 = 0" by (simp add: s1_def)
    show ?thesis
      unfolding eq using step_after_save [OF a _ sessions_after_show [of w1 "u_id u" now]] b
      by blast
  qed
qed

lemma fst_and_then_done' [simp]:
  "fst (case r of (w', os', e) \<Rightarrow> (w', h os', e)) = fst r"
  by (simp split: prod.splits)

lemma step_start_handler: "session_step w (fst (start_handler w u txt now))"
proof -
  have users: "session_step (w\<lparr>users := us\<rparr>) w' \<Longrightarrow> session_step w w'" for us w'
    by (simp add: session_step_def)
  have normal: "session_step w (fst (normal_start w (u_id u)))"
    by (rule session_step_same) (rule same_other_handlers)
  show ?thesis
  proof (cases "1 < length (py_split txt) \<and> startswith (py_split txt ! 1) ''test_''")
    case False
    then show ?thesis
      using normal by (auto simp: start_handler_def Let_def)
  next
    case True
    show ?thesis
    proof (cases "map_of (tests w) (drop 5 (py_split txt ! 1))")
      case None
      with True show ?thesis
        using normal by (simp add: start_handler_def Let_def)
    next
      case (Some t)
      with True have "fst (start_handler w u txt now) =
          fst (start_test (w\<lparr>users := AList.update (u_id u) STUDENT (users w)\<rparr>) u
                 (drop 5 (py_split txt ! 1)) now)"
        by (simp add: start_handler_def Let_def)
      then show ?thesis
        using users [OF step_start_test] by simp
    qed
  qed
qed

lemma step_record_show:
  assumes "user_test_sessions w uid = Some s"
      and "user_test_sessions w1 = (user_test_sessions w)(uid \<mapsto> record_answer s a)"
  shows "session_step w (fst (show_current_question w1 uid now))"
    and "session_step w (fst (finish_test w1 uid now))"
  using step_after_save [OF assms(2) _ sessions_after_show [of w1 uid now]]
        step_after_save [OF assms(2) _ sessions_after_finish [of w1 uid now]] assms(1)
  by blast+

lemma sessions_save [simp]:
  "user_test_sessions (save_user_test_session w uid s) = (user_test_sessions w)(uid \<mapsto> s)"
  by (simp add: save_user_test_session_def)

lemma step_same_world [simp]: "session_step w w"
  by (simp add: session_step_def)

lemma fst_done_with [simp]: "fst (done_with w os) = w" "fst (raised w os e) = w"
  by (simp_all add: done_with_def raised_def)

lemma step_process_multiple_choice_answer:
  "session_step w (fst (process_multiple_choice_answer w uid data now))"
  by (auto simp: process_multiple_choice_answer_def Let_def
        intro!: step_record_show split: option.splits sum.splits)

lemma step_process_text_answer_from_student:
  "session_step w (fst (process_text_answer_from_student w uid txt now))"
  by (auto simp: process_text_answer_from_student_def Let_def
        intro!: step_record_show split: option.splits sum.splits)

lemma step_skip_question: "session_step w (fst (skip_question w uid now))"
  by (auto simp: skip_question_def Let_def
        intro!: step_record_show split: option.splits sum.splits)

lemmas step_wizard_handlers = same_wizard_handlers [THEN session_step_same]
lemmas step_other_handlers = same_other_handlers [THEN session_step_same]

lemma step_handle_text: "session_step w (fst (handle_text w u txt photo now fresh))"
  unfolding handle_text_def Let_def
  by (simp add: step_start_handler step_wizard_handlers step_other_handlers
        step_process_text_answer_from_student
      split: option.splits FSMState.splits)

lemma step_handle_callback: "session_step w (fst (handle_callback w u data now fresh))"
  unfolding handle_callback_def Let_def
  by (simp add: step_wizard_handlers step_other_handlers same_delete_test [THEN session_step_same]
        step_process_multiple_choice_answer step_skip_question)

lemma step_handle: "session_step w (fst (handle w upd now fresh))"
  unfolding handle_def
  by (simp add: step_handle_text step_handle_callback same_handle_no_text [THEN session_step_same]
      split: update.splits option.splits)

lemma session_inv_step:
  assumes "session_inv w" and "session_step w w'"
  shows "session_inv w'"
  unfolding session_inv_def
proof (intro allI impI)
  fix uid s'
  assume st: "user_test_sessions w' uid = Some s'"
  from assms(2) st
  consider "user_test_sessions w uid = Some s'"
    | "s_answers s' = [] \<and> s_current_question s' = 0"
    | s a where "user_test_sessions w uid = Some s" "s' = record_answer s a"
    unfolding session_step_def by blast
  then show "length (s_answers s') = s_current_question s'"
  proof cases
    case 1
    with assms(1) show ?thesis by (simp add: session_inv_def)
  next
    case 2
    then show ?thesis by simp
  next
    case 3
    with assms(1) show ?thesis by (simp add: session_inv_def)
  qed
qed

lemma reachable_session_inv:
  assumes "reachable w0 w" and "session_inv w0"
  shows "session_inv w"
  using assms
  by (induction rule: reachable.induct) (auto intro: session_inv_step step_handle)

lemma answered_after_show:
  assumes s1: "user_test_sessions w1 uid = Some (record_answer s a)"
      and t1: "map_of (tests w1) (s_test_id s) = Some t"
      and ne: "questions t \<noteq> []"
      and r1: "test_results w1 = test_results w"
  shows "answered w uid s a (fst (show_current_question w1 uid now))"
proof (cases "show_current_question w1 uid now")
  case (fields w' os e)
  have t1': "map_of (tests w1) (s_test_id (record_answer s a)) = Some t" using t1 by simp
  from after_record [OF s1 t1' ne fields] s1 r1 show ?thesis
    unfolding answered_def fields by auto
qed

lemma show_is_finish:
  assumes "user_test_sessions w1 uid = Some s1" and "map_of (tests w1) (s_test_id s1) = Some t"
      and "length (questions t) \<le> s_current_question s1"
  shows "finish_test w1 uid now = show_current_question w1 uid now"
  using assms by (simp add: show_current_question_def Let_def)

lemma start_creates_session:
  assumes t: "map_of (tests w) tid = Some t" and act: "active t" and ne: "questions t \<noteq> []"
  shows "\<exists>s'. user_test_sessions (fst (start_test w u tid now)) (u_id u) = Some s' \<and>
              s_answers s' = [] \<and> s_current_question s' = 0 \<and> s_test_id s' = tid"
proof -
  define s1 where "s1 = \<lparr>s_test_id = tid, s_current_question = 0, s_answers = [],
        s_start_time = isoformat now, s_student_username = display_name u,
        s_student_id = u_id u\<rparr>"
  define w1 where "w1 = set_active_user_test (save_user_test_session w (u_id u) s1) (u_id u) tid"
  have eq: "fst (start_test w u tid now) = fst (show_current_question w1 (u_id u) now)"
    using t act by (simp add: start_test_def Let_def w1_def s1_def)
  have a: "user_test_sessions w1 (u_id u) = Some s1"
    by (simp add: w1_def set_active_user_test_def)
  have b: "map_of (tests w1) (s_test_id s1) = Some t"
    using t by (simp add: w1_def s1_def set_active_user_test_def save_user_test_session_def)
  have "user_test_sessions (fst (show_current_question w1 (u_id u) now)) (u_id u) = Some s1"
    using a b ne
    by (auto simp: show_current_question_def Let_def s1_def set_state_def)
  then show ?thesis unfolding eq by (auto simp: s1_def)
qed

lemma skip_appends:
  assumes s: "user_test_sessions w uid = Some s"
      and t: "map_of (tests w) (s_test_id s) = Some t"
      and i: "s_current_question s < length (questions t)"
  shows "\<exists>a. skipped a \<and> answered w uid s a (fst (skip_question w uid now))"
proof -
  define a where "a = \<lparr>question_id = q_id (questions t ! s_current_question s), answer = [],
                        is_correct = False, skipped = True\<rparr>"
  define w1 where "w1 = state_clear (save_user_test_session w uid (record_answer s a)) uid"
  have s1: "user_test_sessions w1 uid = Some (record_answer s a)" by (simp add: w1_def)
  have t1: "map_of (tests w1) (s_test_id s) = Some t"
    using t by (simp add: w1_def state_clear_def save_user_test_session_def)
  have r1: "test_results w1 = test_results w"
    by (simp add: w1_def state_clear_def save_user_test_session_def)
  have ne: "questions t \<noteq> []" using i by auto
  have fin: "length (questions t) \<le> Suc (s_current_question s) \<Longrightarrow>
             finish_test w1 uid now = show_current_question w1 uid now"
    using show_is_finish [OF s1, of t now] t1 by simp
  have "fst (skip_question w uid now) = fst (show_current_question w1 uid now)"
    using s t i fin
    by (simp add: skip_question_def py_index_nat Let_def a_def [symmetric] w1_def [symmetric])
  with answered_after_show [OF s1 t1 ne r1, of now] have "answered w uid s a (fst (skip_question w uid now))"
    by simp
  moreover have "skipped a" by (simp add: a_def)
  ultimately show ?thesis by blast
qed

lemma text_appends:
  assumes s: "user_test_sessions w uid = Some s"
      and t: "map_of (tests w) (s_test_id s) = Some t"
      and i: "s_current_question s < length (questions t)"
  shows "\<exists>a. \<not> skipped a \<and>
             answered w uid s a (fst (process_text_answer_from_student w uid txt now))"
proof -
  define q where "q = questions t ! s_current_question s"
  define a where "a = \<lparr>question_id = q_id q, answer = py_strip txt,
       is_correct = (py_lower (py_strip txt) = py_lower (correct_answer q)), skipped = False\<rparr>"
  define w1 where "w1 = state_clear (save_user_test_session w uid (record_answer s a)) uid"
  have s1: "user_test_sessions w1 uid = Some (record_answer s a)" by (simp add: w1_def)
  have t1: "map_of (tests w1) (s_test_id s) = Some t"
    using t by (simp add: w1_def state_clear_def save_user_test_session_def)
  have r1: "test_results w1 = test_results w"
    by (simp add: w1_def state_clear_def save_user_test_session_def)
  have ne: "questions t \<noteq> []" using i by auto
  have "fst (process_text_answer_from_student w uid txt now) =
        fst (show_current_question w1 uid now)"
    using s t i
    by (simp add: process_text_answer_from_student_def py_index_nat Let_def
          q_def [symmetric] a_def [symmetric] w1_def [symmetric])
  with answered_after_show [OF s1 t1 ne r1, of now]
  have "answered w uid s a (fst (process_text_answer_from_student w uid txt now))"
    by simp
  moreover have "\<not> skipped a" by (simp add: a_def)
  ultimately show ?thesis by blast
qed

lemma choice_appends:
  assumes s: "user_test_sessions w uid = Some s"
      and t: "map_of (tests w) (s_test_id s) = Some t"
      and i: "s_current_question s < length (questions t)"
      and ci: "callback_index data = Inr k"
      and op: "options (questions t ! s_current_question s) = Some opts"
      and sel: "py_index opts k = Inr sel"
  shows "\<exists>a. \<not> skipped a \<and> answer a = sel \<and>
             answered w uid s a (fst (process_multiple_choice_answer w uid data now))"
proof -
  define q where "q = questions t ! s_current_question s"
  define a where "a = \<lparr>question_id = q_id q, answer = sel,
       is_correct = (sel = correct_answer q), skipped = False\<rparr>"
  define w1 where "w1 = save_user_test_session w uid (record_answer s a)"
  have s1: "user_test_sessions w1 uid = Some (record_answer s a)" by (simp add: w1_def)
  have t1: "map_of (tests w1) (s_test_id s) = Some t"
    using t by (simp add: w1_def save_user_test_session_def)
  have r1: "test_results w1 = test_results w"
    by (simp add: w1_def save_user_test_session_def)
  have ne: "questions t \<noteq> []" using i by auto
  have "fst (process_multiple_choice_answer w uid data now) =
        fst (show_current_question w1 uid now)"
    using s t i ci op sel
    by (simp add: process_multiple_choice_answer_def py_index_nat Let_def
          q_def [symmetric] a_def [symmetric] w1_def [symmetric])
  with answered_after_show [OF s1 t1 ne r1, of now]
  have "answered w uid s a (fst (process_multiple_choice_answer w uid data now))"
    by simp
  moreover have "\<not> skipped a \<and> answer a = sel" by (simp add: a_def)
  ultimately show ?thesis by blast
qed

text \<open>
  C3. Whatever update is processed, a store in which every session has as many answer
  records as its question index says is taken to such a store again; each session stored
  afterwards was stored before, or is fresh (no answers, index 0), or is the sender's
  earlier session with exactly one record appended and the index advanced by exactly one.
  Starting an active test with questions stores a fresh session; a skip, a text answer and
  a valid choice on a session with a current question each append exactly one record.
\<close>

theorem session_invariant:
  assumes "session_inv w"
  shows "session_inv (fst (handle w upd now fresh)) \<and>
         session_step w (fst (handle w upd now fresh)) \<and>
         (\<forall>u tid t. map_of (tests w) tid = Some t \<and> active t \<and> questions t \<noteq> [] \<longrightarrow>
            (\<exists>s'. user_test_sessions (fst (start_test w u tid now)) (u_id u) = Some s' \<and>
                  s_answers s' = [] \<and> s_current_question s' = 0 \<and> s_test_id s' = tid)) \<and>
         (\<forall>uid s t. user_test_sessions w uid = Some s \<and>
              map_of (tests w) (s_test_id s) = Some t \<and>
              s_current_question s < length (questions t) \<longrightarrow>
            (\<exists>a. skipped a \<and> answered w uid s a (fst (skip_question w uid now))) \<and>
            (\<forall>txt. \<exists>a. \<not> skipped a \<and>
               answered w uid s a (fst (process_text_answer_from_student w uid txt now))) \<and>
            (\<forall>data k opts sel. callback_index data = Inr k \<and>
                 options (questions t ! s_current_question s) = Some opts \<and>
                 py_index opts k = Inr sel \<longrightarrow>
               (\<exists>a. \<not> skipped a \<and> answer a = sel \<and>
                  answered w uid s a (fst (process_multiple_choice_answer w uid data now)))))"
proof -
  have 1: "session_inv (fst (handle w upd now fresh))"
    using assms step_handle by (rule session_inv_step)
  have 2: "session_step w (fst (handle w upd now fresh))" by (rule step_handle)
  have 3: "\<forall>u tid t. map_of (tests w) tid = Some t \<and> active t \<and> questions t \<noteq> [] \<longrightarrow>
            (\<exists>s'. user_test_sessions (fst (start_test w u tid now)) (u_id u) = Some s' \<and>
                  s_answers s' = [] \<and> s_current_question s' = 0 \<and> s_test_id s' = tid)"
    by (intro allI impI, elim conjE) (rule start_creates_session)
  have 4: "\<forall>uid s t. user_test_sessions w uid = Some s \<and>
              map_of (tests w) (s_test_id s) = Some t \<and>
              s_current_question s < length (questions t) \<longrightarrow>
            (\<exists>a. skipped a \<and> answered w uid s a (fst (skip_question w uid now))) \<and>
            (\<forall>txt. \<exists>a. \<not> skipped a \<and>
               answered w uid s a (fst (process_text_answer_from_student w uid txt now))) \<and>
            (\<forall>data k opts sel. callback_index data = Inr k \<and>
                 options (questions t ! s_current_question s) = Some opts \<and>
                 py_index opts k = Inr sel \<longrightarrow>
               (\<exists>a. \<not> skipped a \<and> answer a = sel \<and>
                  answered w uid s a (fst (process_multiple_choice_answer w uid data now))))"
  proof (intro allI impI, elim conjE)
    fix uid s t
    assume h: "user_test_sessions w uid = Some s" "map_of (tests w) (s_test_id s) = Some t"
      "s_current_question s < length (questions t)"
    show "(\<exists>a. skipped a \<and> answered w uid s a (fst (skip_question w uid now))) \<and>
            (\<forall>txt. \<exists>a. \<not> skipped a \<and>
               answered w uid s a (fst (process_text_answer_from_student w uid txt now))) \<and>
            (\<forall>data k opts sel. callback_index data = Inr k \<and>
                 options (questions t ! s_current_question s) = Some opts \<and>
                 py_index opts k = Inr sel \<longrightarrow>
               (\<exists>a. \<not> skipped a \<and> answer a = sel \<and>
                  answered w uid s a (fst (process_multiple_choice_answer w uid data now))))"
    proof (intro conjI allI impI)
      show "\<exists>a. skipped a \<and> answered w uid s a (fst (skip_question w uid now))"
        by (rule skip_appends [OF h])
    next
      fix answer_text
      show "\<exists>a. \<not> skipped a \<and>
               answered w uid s a (fst (process_text_answer_from_student w uid answer_text now))"
        by (rule text_appends [OF h])
    next
      fix data k opts sel
      assume "callback_index data = Inr k \<and>
                 options (questions t ! s_current_question s) = Some opts \<and>
                 py_index opts k = Inr sel"
      then show "\<exists>a. \<not> skipped a \<and> answer a = sel \<and>
                  answered w uid s a (fst (process_multiple_choice_answer w uid data now))"
        using choice_appends [OF h] by (elim conjE) 
    qed
  qed
  show ?thesis by (rule conjI [OF 1 conjI [OF 2 conjI [OF 3 4]]])
qed


lemma session_inv_store_mid: "session_inv store_mid"
  by (auto simp: session_inv_def store_mid_def session_mid_def split: if_splits)

theorem session_invariant_witness:
  "session_inv store_mid \<and>
   session_inv (fst (handle store_mid (Callback carl ''skip_question'') noon ''u1''))"
proof -
  note th = session_invariant [OF session_inv_store_mid,
      of "Callback carl ''skip_question''" noon "''u1''", THEN conjunct1]
  show ?thesis using session_inv_store_mid th by (intro conjI)
qed


subsection \<open>Starting from a deep link\<close>


lemma split_demo1: "py_split ''/start test_t1'' = [''/start'', ''test_t1'']"
  by (simp add: py_split_def is_space_def)


subsection \<open>The wizard keeps choice questions well formed\<close>

lemma set_update_subset: "set (AList.update k v al) \<subseteq> insert (k, v) (set al)"
  by (induction al) auto

lemma set_delete_subset: "set (AList.delete k al) \<subseteq> set al"
  by (auto simp: AList.delete_eq)

lemma py_index_mem: "py_index xs i = Inr x \<Longrightarrow> x \<in> set xs"
  by (auto simp: py_index_def split: if_splits)

lemma test_ok_append: "test_ok t \<Longrightarrow> choice_ok q \<Longrightarrow> test_ok (t\<lparr>questions := questions t @ [q]\<rparr>)"
  by (auto simp: test_ok_def)

lemma fsm_update_data [simp]:
  "fsm_data (update_data w uid f) = (fsm_data w)(uid := f (fsm_data w uid))"
  "fsm_state (update_data w uid f) = fsm_state w"
  "tests (update_data w uid f) = tests w"
  by (simp_all add: update_data_def)

lemma fsm_set_state [simp]:
  "fsm_data (set_state w uid st) = fsm_data w"
  "fsm_state (set_state w uid st) = (fsm_state w)(uid \<mapsto> st)"
  "tests (set_state w uid st) = tests w"
  by (simp_all add: set_state_def)

lemma fsm_state_clear [simp]:
  "fsm_data (state_clear w uid) = (fsm_data w)(uid := empty_draft)"
  "fsm_state (state_clear w uid) = (fsm_state w)(uid := None)"
  "tests (state_clear w uid) = tests w"
  by (simp_all add: state_clear_def)

lemma empty_draft_simps [simp]:
  "d_test empty_draft = Absent" "d_question_type empty_draft = Absent"
  by (simp_all add: empty_draft_def)

lemma wizard_inv_update:
  assumes inv: "wizard_inv w"
      and ts: "\<And>kt. kt \<in> set (tests w') \<Longrightarrow> kt \<in> set (tests w) \<or> test_ok (snd kt)"
      and other: "\<And>u. u \<noteq> uid \<Longrightarrow> fsm_data w' u = fsm_data w u \<and> fsm_state w' u = fsm_state w u"
      and draft: "\<And>t. d_test (fsm_data w' uid) = Val t \<Longrightarrow> test_ok t"
      and st: "fsm_state w' uid = Some waiting_correct_answer \<Longrightarrow>
               d_question_type (fsm_data w' uid) = Val TEXT_INPUT"
  shows "wizard_inv w'"
  unfolding wizard_inv_def
proof (intro conjI ballI allI impI)
  fix kt assume "kt \<in> set (tests w')"
  from ts [OF this] inv show "test_ok (snd kt)" by (auto simp: wizard_inv_def)
next
  fix u t assume h: "d_test (fsm_data w' u) = Val t"
  show "test_ok t"
  proof (cases "u = uid")
    case True
    with h draft show ?thesis by simp
  next
    case False
    from other [OF False] h inv show ?thesis by (auto simp: wizard_inv_def)
  qed
next
  fix u assume h: "fsm_state w' u = Some waiting_correct_answer"
  show "d_question_type (fsm_data w' u) = Val TEXT_INPUT"
  proof (cases "u = uid")
    case True
    with h st show ?thesis by simp
  next
    case False
    from other [OF False] h inv show ?thesis by (auto simp: wizard_inv_def)
  qed
qed

lemma wizard_inv_draft: "wizard_inv w \<Longrightarrow> d_test (fsm_data w u) = Val t \<Longrightarrow> test_ok t"
  by (auto simp: wizard_inv_def)

lemma wizard_inv_state:
  "wizard_inv w \<Longrightarrow> fsm_state w u = Some waiting_correct_answer \<Longrightarrow>
   d_question_type (fsm_data w u) = Val TEXT_INPUT"
  by (auto simp: wizard_inv_def)

lemma draft_question_ok:
  "draft_ready d \<Longrightarrow> draft_question d fresh = Inr q \<Longrightarrow> choice_ok q"
  by (auto simp: draft_question_def draft_ready_def choice_ok_def slot_get_def
        split: if_splits slot.splits)

lemma save_question_inv:
  assumes inv: "wizard_inv w" and ready: "draft_ready (fsm_data w uid)"
  shows "wizard_inv (fst (save_question_and_continue w uid fresh))"
proof -
  have A: "\<forall>kt \<in> set (tests w). test_ok (snd kt)"
    and B: "\<And>u t. d_test (fsm_data w u) = Val t \<Longrightarrow> test_ok t"
    and C: "\<And>u. fsm_state w u = Some waiting_correct_answer \<Longrightarrow>
                 d_question_type (fsm_data w u) = Val TEXT_INPUT"
    using inv by (auto simp: wizard_inv_def)
  let ?d = "fsm_data w uid"
  show ?thesis
  proof (cases "\<exists>t q. d_test ?d = Val t \<and> draft_question ?d fresh = Inr q \<and>
                  d_current_question ?d \<noteq> Absent \<and> d_total_questions ?d \<noteq> Absent")
    case False
    then have "fst (save_question_and_continue w uid fresh) = w"
      by (auto simp: save_question_and_continue_def Let_def
            split: slot.splits sum.splits)
    with inv show ?thesis by simp
  next
    case True
    then obtain t q where d: "d_test ?d = Val t" "draft_question ?d fresh = Inr q"
      "d_current_question ?d \<noteq> Absent" "d_total_questions ?d \<noteq> Absent"
      by blast
    define t' where "t' = t\<lparr>questions := questions t @ [q]\<rparr>"
    have "choice_ok q" using ready d(2) by (rule draft_question_ok)
    with B [OF d(1)] have ok: "test_ok t'"
      unfolding t'_def by (rule test_ok_append)
    define w1 where "w1 = update_data w uid (\<lambda>d. d\<lparr>d_test := Val t'\<rparr>)"
    have inv1: "wizard_inv w1"
      using inv
    proof (rule wizard_inv_update [where uid = uid])
      show "d_question_type (fsm_data w1 uid) = Val TEXT_INPUT"
        if "fsm_state w1 uid = Some waiting_correct_answer"
        using that wizard_inv_state [OF inv, of uid] by (simp add: w1_def)
    qed (use ok in \<open>simp_all add: w1_def\<close>)
    have "fst (save_question_and_continue w uid fresh) = w1 \<or>
        (\<exists>cur. fst (save_question_and_continue w uid fresh) =
          set_state (update_data w1 uid
             (\<lambda>d. d\<lparr>d_test := Val t', d_current_question := Val (cur + 1),
                   d_question_text := PyNone, d_question_type := PyNone,
                   d_options := PyNone, d_correct_answer := PyNone,
                   d_photo_file_id := PyNone\<rparr>)) uid waiting_question_type) \<or>
        fst (save_question_and_continue w uid fresh) =
          state_clear (w1\<lparr>tests := AList.update (t_id t') t' (tests w1)\<rparr>) uid"
      using d
      by (auto simp: save_question_and_continue_def Let_def
            t'_def [symmetric] w1_def [symmetric] split: slot.splits)
    then consider (err) "fst (save_question_and_continue w uid fresh) = w1"
      | (more) cur where "fst (save_question_and_continue w uid fresh) =
          set_state (update_data w1 uid
             (\<lambda>d. d\<lparr>d_test := Val t', d_current_question := Val (cur + 1),
                   d_question_text := PyNone, d_question_type := PyNone,
                   d_options := PyNone, d_correct_answer := PyNone,
                   d_photo_file_id := PyNone\<rparr>)) uid waiting_question_type"
      | (final) "fst (save_question_and_continue w uid fresh) =
          state_clear (w1\<lparr>tests := AList.update (t_id t') t' (tests w1)\<rparr>) uid"
      by blast
    then show ?thesis
    proof cases
      case err
      with inv1 show ?thesis by simp
    next
      case more
      show ?thesis
        unfolding more using inv
        by (rule wizard_inv_update [where uid = uid]) (use ok in \<open>simp_all add: w1_def\<close>)
    next
      case final
      have sub: "set (AList.update (t_id t') t' (tests w)) \<subseteq> insert (t_id t', t') (set (tests w))"
        by (rule set_update_subset)
      show ?thesis
        unfolding final using inv
      proof (rule wizard_inv_update [where uid = uid])
        fix kt
        assume "kt \<in> set (tests (state_clear (w1\<lparr>tests := AList.update (t_id t') t' (tests w1)\<rparr>) uid))"
        then have "kt \<in> insert (t_id t', t') (set (tests w))"
          using sub by (auto simp: w1_def)
        then show "kt \<in> set (tests w) \<or> test_ok (snd kt)" using ok by auto
      qed (simp_all add: w1_def)
    qed
  qed
qed

lemma quiet_refl [simp]: "quiet uid w w"
  by (simp add: quiet_def)

lemma quiet_trans: "quiet uid w w1 \<Longrightarrow> quiet uid w1 w2 \<Longrightarrow> quiet uid w w2"
  unfolding quiet_def by (elim conjE disjE) simp_all

lemma quiet_inv:
  assumes "wizard_inv w" and q: "quiet uid w w'"
  shows "wizard_inv w'"
  using assms(1)
proof (rule wizard_inv_update [where uid = uid])
  show "kt \<in> set (tests w) \<or> test_ok (snd kt)" if "kt \<in> set (tests w')" for kt
    using that q by (simp add: quiet_def)
  show "fsm_data w' u = fsm_data w u \<and> fsm_state w' u = fsm_state w u" if "u \<noteq> uid" for u
    using that q by (simp add: quiet_def)
  show "test_ok t" if "d_test (fsm_data w' uid) = Val t" for t
    using that q wizard_inv_draft [OF assms(1), of uid t] by (auto simp: quiet_def)
  show "d_question_type (fsm_data w' uid) = Val TEXT_INPUT"
    if "fsm_state w' uid = Some waiting_correct_answer"
    using that q wizard_inv_state [OF assms(1), of uid] by (auto simp: quiet_def)
qed

lemma quiet_basic [simp]:
  "quiet uid w (save_user_test_session w uid s)"
  "quiet uid w (state_clear (save_user_test_session w uid s) uid)"
  "quiet uid w (set_active_user_test (save_user_test_session w uid s) uid tid)"
  "quiet uid w (w\<lparr>users := us\<rparr>)"
  by (simp_all add: quiet_def save_user_test_session_def state_clear_def set_active_user_test_def)

lemma quiet_finish: "quiet uid w (fst (finish_test w uid now))"
  by (auto simp: finish_test_def Let_def quiet_def state_clear_def clear_active_user_test_def
        delete_user_test_session_def split: option.splits sum.splits)

lemma quiet_show: "quiet uid w (fst (show_current_question w uid now))"
  using quiet_finish [of uid w now]
  by (auto simp: show_current_question_def Let_def set_state_def quiet_def
        split: option.splits)

lemma quiet_then:
  assumes "quiet uid w w1"
  shows "quiet uid w (fst (show_current_question w1 uid now))"
    and "quiet uid w (fst (finish_test w1 uid now))"
  using assms quiet_show [of uid w1 now] quiet_finish [of uid w1 now]
  by (blast intro: quiet_trans)+

lemma quiet_start_test: "quiet (u_id u) w (fst (start_test w u tid now))"
  by (auto simp: start_test_def Let_def intro!: quiet_then split: option.splits)

lemma quiet_answers:
  "quiet uid w (fst (process_multiple_choice_answer w uid data now))"
  "quiet uid w (fst (process_text_answer_from_student w uid tx now))"
  "quiet uid w (fst (skip_question w uid now))"
  by (auto simp: process_multiple_choice_answer_def process_text_answer_from_student_def
        skip_question_def Let_def intro!: quiet_then split: option.splits sum.splits)

lemma quiet_start_handler: "quiet (u_id u) w (fst (start_handler w u tx now))"
proof -
  have "quiet (u_id u) w (fst (start_test (w\<lparr>users := us\<rparr>) u tid now))" for us tid
    using quiet_trans [OF quiet_basic(4) quiet_start_test] .
  then show ?thesis
    by (auto simp: start_handler_def Let_def normal_start_def split: option.splits)
qed

lemma wizard_inv_draft': "wizard_inv w \<Longrightarrow> Val t = d_test (fsm_data w u) \<Longrightarrow> test_ok t"
  by (auto simp: wizard_inv_def)

lemmas inv_dest = wizard_inv_draft wizard_inv_draft' wizard_inv_state

lemma inv_set_state:
  assumes "wizard_inv w" and "st \<noteq> waiting_correct_answer"
  shows "wizard_inv (set_state w uid st)"
  using assms(1)
  by (rule wizard_inv_update [where uid = uid])
     (use assms in \<open>auto dest: inv_dest\<close>)

lemma inv_update_data:
  assumes "wizard_inv w"
      and "d_test (f (fsm_data w uid)) = d_test (fsm_data w uid) \<or>
           (\<exists>t. d_test (f (fsm_data w uid)) = Val t \<and> test_ok t)"
      and "fsm_state w uid = Some waiting_correct_answer \<Longrightarrow>
           d_question_type (f (fsm_data w uid)) = Val TEXT_INPUT"
  shows "wizard_inv (update_data w uid f)"
  using assms(1)
  by (rule wizard_inv_update [where uid = uid])
     (use assms in \<open>auto dest: inv_dest\<close>)

lemma inv_choose:
  assumes "wizard_inv w"
  shows "wizard_inv (fst (choose_text_input w uid))"
    and "wizard_inv (fst (choose_multiple_choice w uid))"
    and "wizard_inv (fst (choose_photo_multiple_choice w uid))"
    and "wizard_inv (fst (choose_photo_text_input w uid))"
    and "wizard_inv (fst (create_test_handler w uid))"
  unfolding choose_text_input_def choose_multiple_choice_def choose_photo_multiple_choice_def
    choose_photo_text_input_def create_test_handler_def
  using assms
  by (simp_all, (rule wizard_inv_update [where uid = uid and w = w],
        auto dest: inv_dest)+)

lemma inv_process_question_count:
  "wizard_inv w \<Longrightarrow> wizard_inv (fst (process_question_count w uid tx))"
  by (auto simp: process_question_count_def intro!: inv_set_state inv_update_data
        dest: inv_dest split: sum.splits)

lemma inv_process_test_name:
  "wizard_inv w \<Longrightarrow> wizard_inv (fst (process_test_name w u tx fresh now))"
  by (auto simp: process_test_name_def Let_def test_ok_def intro!: inv_set_state inv_update_data
        dest: inv_dest split: slot.splits)

lemma inv_after_question_text:
  "wizard_inv w \<Longrightarrow> wizard_inv (fst (after_question_text w uid))"
proof (cases "d_question_type (fsm_data w uid) = Val TEXT_INPUT")
  case False
  assume "wizard_inv w"
  with False show ?thesis
    by (auto simp: after_question_text_def intro!: inv_set_state
          split: slot.splits QuestionType.splits)
next
  case True
  assume inv: "wizard_inv w"
  have "wizard_inv (set_state w uid waiting_correct_answer)"
    using inv
    by (rule wizard_inv_update [where uid = uid]) (use True inv in \<open>auto dest: inv_dest\<close>)
  with True show ?thesis by (simp add: after_question_text_def)
qed

lemma inv_store_text:
  assumes "wizard_inv w"
  shows "wizard_inv (update_data w uid (\<lambda>d. d\<lparr>d_question_text := x\<rparr>))"
  using assms by (auto intro!: inv_update_data dest: inv_dest)

lemma inv_question_text_handlers:
  assumes "wizard_inv w"
  shows "wizard_inv (fst (process_question_text w uid tx))"
    and "wizard_inv (fst (process_question_text_after_photo w uid tx))"
  unfolding process_question_text_def process_question_text_after_photo_def
  using assms by (auto intro!: inv_after_question_text inv_store_text)

lemma inv_process_photo_question:
  "wizard_inv w \<Longrightarrow> wizard_inv (fst (process_photo_question w uid photo))"
  by (auto simp: process_photo_question_def intro!: inv_set_state inv_update_data dest: inv_dest)

lemma inv_process_options:
  "wizard_inv w \<Longrightarrow> wizard_inv (fst (process_options w uid tx))"
  by (auto simp: process_options_def Let_def intro!: inv_update_data dest: inv_dest)

lemma inv_process_correct_answer_choice:
  assumes inv: "wizard_inv w"
  shows "wizard_inv (fst (process_correct_answer_choice w uid data fresh))"
proof (cases "\<exists>k opts chosen. callback_index data = Inr k \<and>
                d_options (fsm_data w uid) = Val opts \<and> py_index opts k = Inr chosen")
  case False
  then have "fst (process_correct_answer_choice w uid data fresh) = w"
    by (auto simp: process_correct_answer_choice_def split: sum.splits slot.splits)
  with inv show ?thesis by simp
next
  case True
  then obtain k opts chosen where h: "callback_index data = Inr k"
    "d_options (fsm_data w uid) = Val opts" "py_index opts k = Inr chosen"
    by blast
  define w1 where "w1 = update_data w uid (\<lambda>d. d\<lparr>d_correct_answer := Val chosen\<rparr>)"
  have inv1: "wizard_inv w1"
    unfolding w1_def using inv by (auto intro!: inv_update_data dest: inv_dest)
  have "draft_ready (fsm_data w1 uid)"
    using h py_index_mem [OF h(3)] by (simp add: draft_ready_def w1_def)
  from save_question_inv [OF inv1 this]
  show ?thesis using h by (simp add: process_correct_answer_choice_def w1_def)
qed

lemma inv_process_text_answer:
  assumes inv: "wizard_inv w" and st: "fsm_state w uid = Some waiting_correct_answer"
  shows "wizard_inv (fst (save_question_and_continue
           (update_data w uid (\<lambda>d. d\<lparr>d_correct_answer := x\<rparr>)) uid fresh))"
proof -
  define w1 where "w1 = update_data w uid (\<lambda>d. d\<lparr>d_correct_answer := x\<rparr>)"
  have ty: "d_question_type (fsm_data w uid) = Val TEXT_INPUT"
    using inv st by (rule wizard_inv_state)
  have inv1: "wizard_inv w1"
    unfolding w1_def using inv by (auto intro!: inv_update_data dest: inv_dest)
  have "draft_ready (fsm_data w1 uid)"
    using ty by (simp add: draft_ready_def w1_def)
  from save_question_inv [OF inv1 this] show ?thesis by (simp add: w1_def)
qed

lemma wizard_inv_users [simp]: "wizard_inv (w\<lparr>users := us\<rparr>) = wizard_inv w"
  by (simp add: wizard_inv_def)

lemma unchanged_handlers:
  "fst (help_handler w uid) = w"
  "fst (back_to_main_menu w uid) = w"
  "fst (unknown_callback w) = w"
  "fst (unknown_message w uid) = w"
  "fst (normal_start w uid) = w"
  "fst (show_my_tests w uid) = w"
  "fst (show_test_results w uid) = w"
  "fst (view_test_results w uid data) = w"
  "fst (text_answer_without_text w uid) = w"
  by (simp_all add: help_handler_def back_to_main_menu_def unknown_callback_def
        unknown_message_def normal_start_def show_my_tests_def show_test_results_def
        view_test_results_def text_answer_without_text_def Let_def
      split: option.splits sum.splits UserRole.splits)

lemma inv_roles:
  "wizard_inv w \<Longrightarrow> wizard_inv (fst (choose_teacher_role w uid))"
  "wizard_inv w \<Longrightarrow> wizard_inv (fst (choose_student_role w uid))"
  by (simp_all add: choose_teacher_role_def choose_student_role_def)

lemma inv_delete_test:
  assumes inv: "wizard_inv w"
  shows "wizard_inv (fst (delete_test w uid data))"
proof -
  have sub: "wizard_inv (w\<lparr>tests := AList.delete k (tests w), test_results := rs\<rparr>)" for k rs
    using inv
    by (rule wizard_inv_update [where uid = uid])
       (use set_delete_subset [of k "tests w"] inv in \<open>auto dest: inv_dest\<close>)
  show ?thesis
    using inv sub
    by (auto simp: delete_test_def Let_def unchanged_handlers split: option.splits)
qed

lemma inv_taking:
  assumes inv: "wizard_inv w"
  shows "wizard_inv (fst (start_handler w u tx now))"
    and "wizard_inv (fst (process_multiple_choice_answer w uid data now))"
    and "wizard_inv (fst (process_text_answer_from_student w uid tx now))"
    and "wizard_inv (fst (skip_question w uid now))"
  using quiet_inv [OF inv quiet_start_handler] quiet_inv [OF inv quiet_answers(1)]
    quiet_inv [OF inv quiet_answers(2)] quiet_inv [OF inv quiet_answers(3)]
  by blast+

lemma inv_handle_text:
  assumes inv: "wizard_inv w"
  shows "wizard_inv (fst (handle_text w u tx photo now fresh))"
  unfolding handle_text_def Let_def
  using inv
  by (auto simp: unchanged_handlers process_text_answer_def
        intro!: inv_taking inv_process_question_count
          inv_process_test_name inv_question_text_handlers inv_process_photo_question
          inv_process_options inv_process_text_answer
        split: option.splits FSMState.splits)

lemma inv_handle_no_text:
  assumes inv: "wizard_inv w"
  shows "wizard_inv (fst (handle_no_text w u photo fresh))"
  unfolding handle_no_text_def Let_def
  using inv
  by (auto simp: unchanged_handlers
        intro!: inv_after_question_text inv_store_text inv_process_photo_question
          inv_process_text_answer
        split: option.splits FSMState.splits slot.splits)

lemma inv_handle_callback:
  assumes inv: "wizard_inv w"
  shows "wizard_inv (fst (handle_callback w u data now fresh))"
  unfolding handle_callback_def Let_def
  using inv
  by (auto simp: unchanged_handlers
        intro!: inv_taking inv_choose inv_roles inv_delete_test
          inv_process_correct_answer_choice)

lemma inv_handle: "wizard_inv w \<Longrightarrow> wizard_inv (fst (handle w upd now fresh))"
  by (auto simp: handle_def intro!: inv_handle_text inv_handle_no_text inv_handle_callback
        split: update.splits option.splits)

lemma reachable_wizard_inv:
  assumes "reachable w0 w" and "wizard_inv w0"
  shows "wizard_inv w"
  using assms by (induction rule: reachable.induct) (auto intro: inv_handle)

lemma wizard_inv_empty: "wizard_inv empty_world"
  by (simp add: wizard_inv_def empty_world_def)



lemma reachable_run: "reachable w0 (run w0 evs)"
proof (induction evs rule: rev_induct)
  case Nil
  show ?case by (simp add: run_def reach_init)
next
  case (snoc ev evs)
  from reach_step [OF snoc, of "fst ev" "fst (snd ev)" "snd (snd ev)"]
  show ?case by (simp add: run_def)
qed

lemma wizard_run_tests:
  "tests (run empty_world wizard_events) =
     [(''T'', \<lparr>t_id = ''T'', teacher_id = 7, teacher_username = ''anna'',
        questions = [\<lparr>q_id = ''Q'', q_text = ''Capital of France?'',
           question_type = MULTIPLE_CHOICE, options = Some [''Paris'', ''Rome''],
           correct_answer = ''Paris'', photo_file_id = None\<rparr>],
        created_at = noon, t_name = ''Geo'', active = True\<rparr>)]"
  by code_simp


end
